theory Spec2Isabelle
  imports Main "HOL-Library.Log_Nat"
begin

section \<open>Text: Python strings over the code points U+0000 .. U+00FF\<close>

text \<open>
  The manual worker (\<^verbatim>\<open>scripts/manual_worker.py\<close>) works on Python \<^verbatim>\<open>str\<close> values.
  A text is modelled as a \<^typ>\<open>string\<close>: one \<^typ>\<open>char\<close> per code point, so that
  \<^const>\<open>length\<close> is Python's \<^verbatim>\<open>len\<close> and \<^term>\<open>take n s\<close> is \<^verbatim>\<open>s[:n]\<close>. The modelled texts
  are those whose code points lie in U+0000 .. U+00FF; the character tables below are
  those of Python 3 (the Unicode character database) on that range.
\<close>

definition code :: "char \<Rightarrow> nat" where
  "code c = of_char c"

definition in_range :: "char \<Rightarrow> nat \<Rightarrow> nat \<Rightarrow> bool" where
  "in_range c lo hi = (lo \<le> code c \<and> code c \<le> hi)"

text \<open>\<^verbatim>\<open>str.isspace\<close>, and the class \<^verbatim>\<open>\s\<close> of \<^verbatim>\<open>re\<close>: TAB .. CR, FS .. US, SPACE, NEL, NBSP.\<close>

definition isspace :: "char \<Rightarrow> bool" where
  "isspace c = (in_range c 9 13 \<or> in_range c 28 32 \<or> code c = 133 \<or> code c = 160)"

text \<open>The class \<^verbatim>\<open>[A-Z]\<close>, the class \<^verbatim>\<open>[0-9]\<close> (which is also \<^verbatim>\<open>\d\<close> on this range).\<close>

definition is_AZ :: "char \<Rightarrow> bool" where
  "is_AZ c = in_range c 65 90"

definition is_digit :: "char \<Rightarrow> bool" where
  "is_digit c = in_range c 48 57"

text \<open>Cased letters: A-Z and the capitals U+00C0 .. U+00DE (without the sign U+00D7);
  a-z, the small letters U+00DF .. U+00FF (without U+00F7), and the three lowercase
  characters U+00AA, U+00B5, U+00BA.\<close>

definition isupper :: "char \<Rightarrow> bool" where
  "isupper c = (in_range c 65 90 \<or> (in_range c 192 222 \<and> code c \<noteq> 215))"

definition islower :: "char \<Rightarrow> bool" where
  "islower c = (in_range c 97 122 \<or> (in_range c 223 255 \<and> code c \<noteq> 247)
     \<or> code c = 170 \<or> code c = 181 \<or> code c = 186)"

text \<open>\<^verbatim>\<open>str.isalpha\<close>: the letters (general categories Lu, Ll, Lo on this range).\<close>

definition isalpha :: "char \<Rightarrow> bool" where
  "isalpha c = (isupper c \<or> islower c)"

text \<open>The class \<^verbatim>\<open>\w\<close> of \<^verbatim>\<open>re\<close>: alphanumeric characters (letters, decimal digits, the
  superscript digits U+00B2, U+00B3, U+00B9 and the fractions U+00BC .. U+00BE) and the
  underscore.\<close>

definition is_word :: "char \<Rightarrow> bool" where
  "is_word c = (isalpha c \<or> is_digit c \<or> code c = 95
     \<or> code c = 178 \<or> code c = 179 \<or> code c = 185 \<or> in_range c 188 190)"

text \<open>\<^verbatim>\<open>str.lower\<close> on one character: capitals move up by 32.\<close>

definition to_lower :: "char \<Rightarrow> char" where
  "to_lower c = (if isupper c then char_of (code c + 32) else c)"

definition lower :: "string \<Rightarrow> string" where
  "lower s = map to_lower s"

text \<open>\<^verbatim>\<open>str.strip()\<close>: whitespace removed at both ends.\<close>

definition lstrip :: "string \<Rightarrow> string" where
  "lstrip s = dropWhile isspace s"

definition rstrip :: "string \<Rightarrow> string" where
  "rstrip s = rev (dropWhile isspace (rev s))"

definition strip :: "string \<Rightarrow> string" where
  "strip s = rstrip (lstrip s)"

text \<open>\<^verbatim>\<open>s.split('\n')\<close>: the pieces between line feeds; never the empty list.\<close>

fun split_nl :: "string \<Rightarrow> string list" where
  "split_nl [] = [[]]"
| "split_nl (c # cs) =
     (if c = CHR 0x0A then [] # split_nl cs
      else (case split_nl cs of l # ls \<Rightarrow> (c # l) # ls | [] \<Rightarrow> [[c]]))"

text \<open>\<^verbatim>\<open>str.title()\<close>: a cased character that follows a cased character is lowered, one
  that does not is put in title case. The segmenter calls it on lines of the class
  \<^verbatim>\<open>[A-Z\s\-/&]\<close> only, which hold no lowercase character; for a lowercase character
  at the start of a word the model gives the capital 32 below it, which is Python's
  title case except for U+00AA, U+00B5, U+00BA, U+00DF and U+00FF.\<close>

definition to_title :: "char \<Rightarrow> char" where
  "to_title c = (if in_range c 97 122 \<or> (in_range c 224 254 \<and> code c \<noteq> 247)
     then char_of (code c - 32) else c)"

fun title_from :: "bool \<Rightarrow> string \<Rightarrow> string" where
  "title_from cased [] = []"
| "title_from cased (c # cs) =
     (if islower c then (if cased then c else to_title c) # title_from True cs
      else if isupper c then (if cased then to_lower c else c) # title_from True cs
      else c # title_from False cs)"

definition titlecase :: "string \<Rightarrow> string" where
  "titlecase s = title_from False s"


section \<open>Regular expressions as Python's \<^verbatim>\<open>re\<close> matches them\<close>

text \<open>
  The patterns of the source are kept as data. \<^verbatim>\<open>re\<close> is a backtracking matcher:
  alternatives are tried from left to right and quantifiers are greedy. \<open>ends\<close> lists,
  in the order in which the matcher finds them, the lengths of the matches of a pattern
  at one position of a text; the first of them is the match \<^verbatim>\<open>re\<close> reports.
  The position is the character before it (\<open>None\<close> at the start of the text) and
  the rest of the text.
\<close>

datatype regex =
    Eps
  | Lit char
  | Cls "char \<Rightarrow> bool"
  | Cat regex regex
  | Alt regex regex
  | Star regex
  | Bnd
  | Bol
  | Eol

record flags =
  ignorecase :: bool
  multiline :: bool

definition no_flags :: flags where
  "no_flags = \<lparr>ignorecase = False, multiline = False\<rparr>"

definition IGNORECASE :: flags where
  "IGNORECASE = \<lparr>ignorecase = True, multiline = False\<rparr>"

definition MULTILINE :: flags where
  "MULTILINE = \<lparr>ignorecase = False, multiline = True\<rparr>"

text \<open>Under IGNORECASE two characters of this range match when their lowercase forms
  agree, and a class holds a character when it holds the character in either case.\<close>

definition to_upper :: "char \<Rightarrow> char" where
  "to_upper c = (if in_range c 97 122 \<or> (in_range c 224 254 \<and> code c \<noteq> 247)
     then char_of (code c - 32) else c)"

definition same_char :: "flags \<Rightarrow> char \<Rightarrow> char \<Rightarrow> bool" where
  "same_char f c x = (if ignorecase f then to_lower c = to_lower x else c = x)"

definition in_class :: "flags \<Rightarrow> (char \<Rightarrow> bool) \<Rightarrow> char \<Rightarrow> bool" where
  "in_class f P x = (if ignorecase f then P x \<or> P (to_lower x) \<or> P (to_upper x) else P x)"

text \<open>\<^verbatim>\<open>\b\<close>: exactly one of the two neighbours is a word character.\<close>

definition word_before :: "char option \<Rightarrow> bool" where
  "word_before p = (case p of None \<Rightarrow> False | Some c \<Rightarrow> is_word c)"

definition word_after :: "string \<Rightarrow> bool" where
  "word_after s = (case s of [] \<Rightarrow> False | c # _ \<Rightarrow> is_word c)"

definition at_boundary :: "char option \<Rightarrow> string \<Rightarrow> bool" where
  "at_boundary p s = (word_before p \<noteq> word_after s)"

text \<open>\<^verbatim>\<open>^\<close>: the start of the text, and with MULTILINE also after a line feed.
  \<^verbatim>\<open>$\<close>: the end of the text or before a final line feed, and with MULTILINE before
  every line feed.\<close>

definition at_bol :: "flags \<Rightarrow> char option \<Rightarrow> bool" where
  "at_bol f p = (case p of None \<Rightarrow> True | Some c \<Rightarrow> multiline f \<and> c = CHR 0x0A)"

definition at_eol :: "flags \<Rightarrow> string \<Rightarrow> bool" where
  "at_eol f s = (case s of [] \<Rightarrow> True
     | c # cs \<Rightarrow> c = CHR 0x0A \<and> (multiline f \<or> cs = []))"

text \<open>The character before the position \<open>e\<close> characters further on.\<close>

definition prev_at :: "char option \<Rightarrow> string \<Rightarrow> nat \<Rightarrow> char option" where
  "prev_at p s e = (if e = 0 \<or> length s < e then p else Some (s ! (e - 1)))"

function ends :: "flags \<Rightarrow> regex \<Rightarrow> char option \<Rightarrow> string \<Rightarrow> nat list" where
  "ends f Eps p s = [0]"
| "ends f (Lit c) p s = (case s of [] \<Rightarrow> [] | x # _ \<Rightarrow> if same_char f c x then [1] else [])"
| "ends f (Cls P) p s = (case s of [] \<Rightarrow> [] | x # _ \<Rightarrow> if in_class f P x then [1] else [])"
| "ends f (Cat r1 r2) p s =
     concat (map (\<lambda>e. map ((+) e) (ends f r2 (prev_at p s e) (drop e s))) (ends f r1 p s))"
| "ends f (Alt r1 r2) p s = ends f r1 p s @ ends f r2 p s"
| "ends f (Star r) p s =
     concat (map (\<lambda>e. map ((+) e) (ends f (Star r) (prev_at p s e) (drop e s)))
                 (filter (\<lambda>e. 0 < e \<and> e \<le> length s) (ends f r p s))) @ [0]"
| "ends f Bnd p s = (if at_boundary p s then [0] else [])"
| "ends f Bol p s = (if at_bol f p then [0] else [])"
| "ends f Eol p s = (if at_eol f s then [0] else [])"
  by pat_completeness auto
termination
  by (relation "measures [\<lambda>(f, r, p, s). length s, \<lambda>(f, r, p, s). size r]") auto

text \<open>The derived forms: a literal string, \<^verbatim>\<open>r?\<close>, \<^verbatim>\<open>r+\<close>, \<^verbatim>\<open>r{m,n}\<close>, \<^verbatim>\<open>r{m,}\<close>, a sequence
  and a choice.\<close>

fun Str :: "string \<Rightarrow> regex" where
  "Str [] = Eps"
| "Str (c # cs) = Cat (Lit c) (Str cs)"

definition Opt :: "regex \<Rightarrow> regex" where
  "Opt r = Alt r Eps"

definition Plus :: "regex \<Rightarrow> regex" where
  "Plus r = Cat r (Star r)"

fun Upto :: "nat \<Rightarrow> regex \<Rightarrow> regex" where
  "Upto 0 r = Eps"
| "Upto (Suc n) r = Alt (Cat r (Upto n r)) Eps"

fun Rep :: "nat \<Rightarrow> nat \<Rightarrow> regex \<Rightarrow> regex" where
  "Rep 0 n r = Upto n r"
| "Rep (Suc m) n r = Cat r (Rep m (n - 1) r)"

fun AtLeast :: "nat \<Rightarrow> regex \<Rightarrow> regex" where
  "AtLeast 0 r = Star r"
| "AtLeast (Suc m) r = Cat r (AtLeast m r)"

fun Seq :: "regex list \<Rightarrow> regex" where
  "Seq [] = Eps"
| "Seq [r] = r"
| "Seq (r # rs) = Cat r (Seq rs)"

fun Choice :: "regex list \<Rightarrow> regex" where
  "Choice [] = Cls (\<lambda>c. False)"
| "Choice [r] = r"
| "Choice (r # rs) = Alt r (Choice rs)"

text \<open>\<^verbatim>\<open>pattern.match(s)\<close>: the length of the match at the start of \<open>s\<close>, if there is one.\<close>

definition re_match :: "flags \<Rightarrow> regex \<Rightarrow> string \<Rightarrow> nat option" where
  "re_match f r s = (case ends f r None s of [] \<Rightarrow> None | e # _ \<Rightarrow> Some e)"

definition matches :: "flags \<Rightarrow> regex \<Rightarrow> string \<Rightarrow> bool" where
  "matches f r s = (re_match f r s \<noteq> None)"

section \<open>Stage 1: pages and sections\<close>

text \<open>
  A page as the loader (\<^verbatim>\<open>pdfplumber\<close>) yields it: \<^verbatim>\<open>page.extract_text()\<close>, which may be
  \<^verbatim>\<open>None\<close>, and \<^verbatim>\<open>page.extract_tables()\<close>. A table is a list of rows of cells.
\<close>

type_synonym table = "string option list list"

record page =
  page_text :: "string option"
  page_tables :: "table list"

text \<open>The dictionary \<^verbatim>\<open>{"title": .., "content": .., "pages": .., "tables": ..}\<close>.\<close>

record manual_section =
  title :: string
  content :: string
  pages :: "nat list"
  tables :: "table list"

text \<open>The heading patterns, all compiled with \<^verbatim>\<open>re.MULTILINE\<close>:
  \<^verbatim>\<open>^[A-Z][A-Z\s\-/&]{4,}$\<close>, \<^verbatim>\<open>^\d+[\.\-]\d*\s+[A-Z]\<close> and
  \<^verbatim>\<open>^(?:Chapter|Section|CHAPTER|SECTION)\s+\d+\<close>.\<close>

definition RE_ALL_CAPS_HEADING :: regex where
  "RE_ALL_CAPS_HEADING =
     Seq [Bol, Cls is_AZ,
          AtLeast 4 (Cls (\<lambda>c. is_AZ c \<or> isspace c \<or> c = CHR ''-'' \<or> c = CHR ''/'' \<or> c = CHR ''&'')),
          Eol]"

definition RE_NUMBERED_SECTION :: regex where
  "RE_NUMBERED_SECTION =
     Seq [Bol, Plus (Cls is_digit), Cls (\<lambda>c. c = CHR ''.'' \<or> c = CHR ''-''),
          Star (Cls is_digit), Plus (Cls isspace), Cls is_AZ]"

definition RE_CHAPTER :: regex where
  "RE_CHAPTER =
     Seq [Bol, Choice [Str ''Chapter'', Str ''Section'', Str ''CHAPTER'', Str ''SECTION''],
          Plus (Cls isspace), Plus (Cls is_digit)]"

text \<open>The heading signal of one stripped line: the three tests of the loop body, in the
  source's order. An all-uppercase line gives its title-cased form, the other two the
  line itself.\<close>

definition line_heading :: "string \<Rightarrow> string option" where
  "line_heading line =
     (if matches MULTILINE RE_ALL_CAPS_HEADING line \<and> length line > 5 then Some (titlecase line)
      else if matches MULTILINE RE_CHAPTER line then Some (strip line)
      else if matches MULTILINE RE_NUMBERED_SECTION line then Some (strip line)
      else None)"

text \<open>The loop \<^verbatim>\<open>for line in text.split('\n')[:5]\<close>: a blank line is passed over
  (\<^verbatim>\<open>continue\<close>), the first signal ends the loop (\<^verbatim>\<open>break\<close>); \<open>None\<close> when the loop
  runs out.\<close>

fun find_heading :: "string list \<Rightarrow> string option" where
  "find_heading [] = None"
| "find_heading (l # ls) =
     (let line = strip l in
      if line = [] then find_heading ls
      else (case line_heading line of
              Some h \<Rightarrow> Some h
            | None \<Rightarrow> find_heading ls))"

definition detect_heading :: "string \<Rightarrow> string option" where
  "detect_heading text = find_heading (take 5 (split_nl text))"

definition new_section :: "string \<Rightarrow> manual_section" where
  "new_section t = \<lparr>title = t, content = [], pages = [], tables = []\<rparr>"

text \<open>One turn of the loop over the pages. The state is the list \<^verbatim>\<open>sections\<close> and the
  open \<^verbatim>\<open>current_section\<close>.\<close>

definition text_of :: "page \<Rightarrow> string" where
  "text_of pg = (case page_text pg of None \<Rightarrow> [] | Some t \<Rightarrow> t)"

definition close_section :: "manual_section list \<Rightarrow> manual_section \<Rightarrow> manual_section list" where
  "close_section sections cur =
     (if strip (content cur) \<noteq> [] then sections @ [cur] else sections)"

definition add_page :: "manual_section list \<times> manual_section \<Rightarrow> nat \<Rightarrow> page \<Rightarrow> manual_section list \<times> manual_section" where
  "add_page st page_num pg =
     (let sections = fst st;
          cur = snd st;
          text = text_of pg;
          heading = detect_heading text;
          break = (case heading of None \<Rightarrow> False | Some h \<Rightarrow> h \<noteq> [] \<and> h \<noteq> title cur);
          sections' = (if break then close_section sections cur else sections);
          cur' = (if break then new_section (the heading) else cur)
      in (sections',
          cur'\<lparr>content := content cur' @ text @ [CHR 0x0A],
               pages := pages cur' @ [page_num],
               tables := tables cur' @ page_tables pg\<rparr>))"

fun seg_pages :: "nat \<Rightarrow> page list \<Rightarrow> manual_section list \<times> manual_section \<Rightarrow> manual_section list \<times> manual_section" where
  "seg_pages i [] st = st"
| "seg_pages i (pg # pgs) st = seg_pages (i + 1) pgs (add_page st (i + 1) pg)"

text \<open>The pages the loop visits: \<^verbatim>\<open>range(min(page_limit, total_pages))\<close>.\<close>

definition processed :: "page list \<Rightarrow> int \<Rightarrow> page list" where
  "processed pdf_pages max_pages =
     (let total_pages = int (length pdf_pages);
          page_limit = (if max_pages > 0 then max_pages else total_pages)
      in take (nat (min page_limit total_pages)) pdf_pages)"

definition extract_sections :: "page list \<Rightarrow> int \<Rightarrow> manual_section list" where
  "extract_sections pdf_pages max_pages =
     (let st = seg_pages 0 (processed pdf_pages max_pages) ([], new_section ''Introduction'')
      in close_section (fst st) (snd st))"

section \<open>Exceptions\<close>

text \<open>What the program, or a part of it, can end with besides a result: an exception, or
  \<^verbatim>\<open>sys.exit\<close>. \<open>LoadError\<close> stands for whatever the loader raises.\<close>

datatype error =
    ValueError
  | TypeError
  | KeyError
  | OverflowError
  | ZeroDivisionError
  | LoadError
  | SystemExit int


section \<open>Floating-point numbers\<close>

text \<open>
  Python's \<^verbatim>\<open>float\<close> is IEEE 754 binary64. A finite float is modelled by the rational
  number it denotes, and every operation by the exact operation followed by \<open>binary64\<close>,
  rounding to the nearest float, ties to the even significand (53 bits; below
  \<open>2 powi -1022\<close> the spacing stays \<open>2 powi -1074\<close>). \<open>binary64\<close> itself has no largest
  exponent; a result that it rounds to \<open>2 ^ 1024\<close> or beyond is an overflow, see
  \<open>to_float\<close> below.
\<close>

definition round_half_even :: "rat \<Rightarrow> int" where
  "round_half_even x =
     (let n = \<lfloor>x\<rfloor>; d = x - of_int n in
      if d < 1 / 2 then n else if 1 / 2 < d then n + 1 else if even n then n else n + 1)"

text \<open>\<open>ilog2 x\<close> is the exponent \<open>e\<close> with \<open>2 powi e \<le> x < 2 powi (e + 1)\<close>, for
  \<open>0 < x\<close>.\<close>

definition ilog2 :: "rat \<Rightarrow> int" where
  "ilog2 x =
     (if 1 \<le> x then int (floorlog 2 (nat \<lfloor>x\<rfloor>)) - 1
      else - int (floorlog 2 (nat (\<lceil>1 / x\<rceil> - 1))))"

definition binary64 :: "rat \<Rightarrow> rat" where
  "binary64 x =
     (if x = 0 then 0
      else let e = max (ilog2 \<bar>x\<bar>) (- 1022);
               u = 2 powi (e - 52)
           in sgn x * of_int (round_half_even (\<bar>x\<bar> / u)) * u)"

text \<open>\<^verbatim>\<open>a / b\<close> on two \<^verbatim>\<open>int\<close>s (true division, correctly rounded), for \<open>b \<noteq> 0\<close> and
  a quotient below the overflow threshold, as where the program uses it: the quotient of a
  count by a length of at least 1.\<close>

definition truediv :: "int \<Rightarrow> int \<Rightarrow> rat" where
  "truediv a b = binary64 (of_int a / of_int b)"

text \<open>\<^verbatim>\<open>round(x, 6)\<close> on a float: the decimal with six places nearest to \<open>x\<close> (ties to
  the even last digit), then the float nearest to that decimal.\<close>

definition round6 :: "rat \<Rightarrow> rat" where
  "round6 x = binary64 (of_int (round_half_even (x * 1000000)) / 1000000)"

text \<open>A float: finite, an infinity, or not a number. (The two zeros of binary64 are one
  value here.) \<open>to_float\<close> is the float of an exact result: beyond the largest finite
  float it is an infinity.\<close>

datatype pyfloat = Finite rat | PInf | NInf | NaN

definition to_float :: "rat \<Rightarrow> pyfloat" where
  "to_float x =
     (let r = binary64 x in
      if 2 ^ 1024 \<le> r then PInf else if r \<le> - (2 ^ 1024) then NInf else Finite r)"

text \<open>\<^verbatim>\<open>float(n)\<close> for an \<^verbatim>\<open>int\<close>, as the arithmetic converts an \<^verbatim>\<open>int\<close> operand: it raises
  \<^verbatim>\<open>OverflowError\<close> where the float would be an infinity.\<close>

definition fl_of_int :: "int \<Rightarrow> error + pyfloat" where
  "fl_of_int n =
     (case to_float (of_int n) of Finite r \<Rightarrow> Inr (Finite r) | _ \<Rightarrow> Inl OverflowError)"

text \<open>Multiplication, addition and division of floats. Only the division raises, on a
  zero divisor.\<close>

definition is_neg :: "pyfloat \<Rightarrow> bool" where
  "is_neg a = (case a of Finite x \<Rightarrow> x < 0 | NInf \<Rightarrow> True | _ \<Rightarrow> False)"

fun fl_mul :: "pyfloat \<Rightarrow> pyfloat \<Rightarrow> pyfloat" where
  "fl_mul (Finite x) (Finite y) = to_float (x * y)"
| "fl_mul NaN b = NaN"
| "fl_mul a NaN = NaN"
| "fl_mul a b =
     (if a = Finite 0 \<or> b = Finite 0 then NaN
      else if is_neg a = is_neg b then PInf else NInf)"

fun fl_add :: "pyfloat \<Rightarrow> pyfloat \<Rightarrow> pyfloat" where
  "fl_add (Finite x) (Finite y) = to_float (x + y)"
| "fl_add NaN b = NaN"
| "fl_add a NaN = NaN"
| "fl_add PInf NInf = NaN"
| "fl_add NInf PInf = NaN"
| "fl_add PInf b = PInf"
| "fl_add a PInf = PInf"
| "fl_add NInf b = NInf"
| "fl_add a NInf = NInf"

fun fl_div :: "pyfloat \<Rightarrow> pyfloat \<Rightarrow> error + pyfloat" where
  "fl_div a (Finite y) =
     (if y = 0 then Inl ZeroDivisionError
      else (case a of
              Finite x \<Rightarrow> Inr (to_float (x / y))
            | NaN \<Rightarrow> Inr NaN
            | PInf \<Rightarrow> Inr (if 0 < y then PInf else NInf)
            | NInf \<Rightarrow> Inr (if 0 < y then NInf else PInf)))"
| "fl_div NaN b = Inr NaN"
| "fl_div a NaN = Inr NaN"
| "fl_div (Finite x) b = Inr (Finite 0)"
| "fl_div a b = Inr NaN"

text \<open>\<^verbatim>\<open>round(x, 6)\<close> on any float: an infinity and not-a-number round to themselves.\<close>

definition py_round6 :: "pyfloat \<Rightarrow> pyfloat" where
  "py_round6 a = (case a of Finite x \<Rightarrow> Finite (round6 x) | _ \<Rightarrow> a)"


section \<open>The skip rules\<close>

text \<open>\<^verbatim>\<open>^\s*(?:table\s+of\s+contents|index|copyright|disclaimer|foreword|preface|how\s+to\s+use)\<close>,
  compiled with \<^verbatim>\<open>re.IGNORECASE\<close>.\<close>

definition SKIP_PATTERNS :: regex where
  "SKIP_PATTERNS =
     Seq [Bol, Star (Cls isspace),
          Choice [Seq [Str ''table'', Plus (Cls isspace), Str ''of'', Plus (Cls isspace), Str ''contents''],
                  Str ''index'', Str ''copyright'', Str ''disclaimer'', Str ''foreword'',
                  Str ''preface'',
                  Seq [Str ''how'', Plus (Cls isspace), Str ''to'', Plus (Cls isspace), Str ''use'']]]"

text \<open>\<^verbatim>\<open>sum(c.isalpha() for c in content) / max(len(content), 1)\<close>.\<close>

definition alpha_count :: "string \<Rightarrow> nat" where
  "alpha_count section_content = length (filter isalpha section_content)"

definition alpha_ratio :: "string \<Rightarrow> rat" where
  "alpha_ratio section_content = truediv (int (alpha_count section_content)) (int (max (length section_content) 1))"

definition should_skip_section :: "string \<Rightarrow> string \<Rightarrow> bool" where
  "should_skip_section section_title section_content =
     (if matches IGNORECASE SKIP_PATTERNS section_title then True
      else if length (strip section_content) < 200 then True
      else if alpha_ratio section_content < binary64 (3 / 10) then True
      else False)"

section \<open>More of Python's strings and \<^verbatim>\<open>re\<close>\<close>

text \<open>The scan that \<^verbatim>\<open>findall\<close>, \<^verbatim>\<open>search\<close> and \<^verbatim>\<open>sub\<close> share: from left to right, the
  text is cut into matches (\<open>Inl\<close>) and the characters between them (\<open>Inr\<close>). \<open>k\<close> counts
  the characters still covered by the last match; after an empty match the scan moves on
  by one character.\<close>

fun tokens :: "flags \<Rightarrow> regex \<Rightarrow> nat \<Rightarrow> char option \<Rightarrow> string \<Rightarrow> (string + char) list" where
  "tokens f r k p [] =
     (if k = 0 then (case ends f r p [] of [] \<Rightarrow> [] | e # _ \<Rightarrow> [Inl []]) else [])"
| "tokens f r k p (c # cs) =
     (if 0 < k then tokens f r (k - 1) (Some c) cs
      else (case ends f r p (c # cs) of
              [] \<Rightarrow> Inr c # tokens f r 0 (Some c) cs
            | e # _ \<Rightarrow>
                if e = 0 then Inl [] # Inr c # tokens f r 0 (Some c) cs
                else Inl (take e (c # cs)) # tokens f r (e - 1) (Some c) cs))"

text \<open>\<^verbatim>\<open>pattern.findall(s)\<close> for a pattern without capturing groups: the matched texts.\<close>

definition findall :: "flags \<Rightarrow> regex \<Rightarrow> string \<Rightarrow> string list" where
  "findall f r s = concat (map (\<lambda>t. case t of Inl m \<Rightarrow> [m] | Inr c \<Rightarrow> []) (tokens f r 0 None s))"

text \<open>\<^verbatim>\<open>re.search(pattern, s)\<close>, with \<^verbatim>\<open>.group()\<close>: the first match.\<close>

definition re_search :: "flags \<Rightarrow> regex \<Rightarrow> string \<Rightarrow> string option" where
  "re_search f r s = (case findall f r s of [] \<Rightarrow> None | m # _ \<Rightarrow> Some m)"

text \<open>\<^verbatim>\<open>re.sub(pattern, repl, s)\<close> for a replacement without group references.\<close>

definition re_sub :: "flags \<Rightarrow> regex \<Rightarrow> string \<Rightarrow> string \<Rightarrow> string" where
  "re_sub f r repl s =
     concat (map (\<lambda>t. case t of Inl m \<Rightarrow> repl | Inr c \<Rightarrow> [c]) (tokens f r 0 None s))"

text \<open>\<^verbatim>\<open>s.replace(old, new)\<close> for a non-empty \<open>old\<close>, and \<^verbatim>\<open>old in s\<close>.\<close>

fun replace_from :: "nat \<Rightarrow> string \<Rightarrow> string \<Rightarrow> string \<Rightarrow> string" where
  "replace_from k old new [] = []"
| "replace_from k old new (c # cs) =
     (if 0 < k then replace_from (k - 1) old new cs
      else if old \<noteq> [] \<and> take (length old) (c # cs) = old
        then new @ replace_from (length old - 1) old new cs
      else c # replace_from 0 old new cs)"

definition replace :: "string \<Rightarrow> string \<Rightarrow> string \<Rightarrow> string" where
  "replace s old new = replace_from 0 old new s"

fun contains :: "string \<Rightarrow> string \<Rightarrow> bool" where
  "contains [] sub = (sub = [])"
| "contains (c # cs) sub = (take (length sub) (c # cs) = sub \<or> contains cs sub)"

text \<open>\<^verbatim>\<open>sep.join(xs)\<close>.\<close>

fun join :: "string \<Rightarrow> string list \<Rightarrow> string" where
  "join sep [] = []"
| "join sep [x] = x"
| "join sep (x # xs) = x @ sep @ join sep xs"

text \<open>\<^verbatim>\<open>int(s)\<close> on a string: whitespace around, a sign, then decimal digits, where single
  underscores may stand between digits. \<open>None\<close> is \<^verbatim>\<open>ValueError\<close>. The whitespace that
  \<^verbatim>\<open>int\<close> skips is TAB .. CR, SPACE, NEL and NBSP (not the separators FS .. US, which
  \<^verbatim>\<open>str.strip\<close> removes), and a string with more than 4300 digits is refused.\<close>

definition int_space :: "char \<Rightarrow> bool" where
  "int_space c = (in_range c 9 13 \<or> code c = 32 \<or> code c = 133 \<or> code c = 160)"

definition int_strip :: "string \<Rightarrow> string" where
  "int_strip s = rev (dropWhile int_space (rev (dropWhile int_space s)))"

definition max_str_digits :: nat where
  "max_str_digits = 4300"

fun parse_digits :: "string \<Rightarrow> int \<Rightarrow> bool \<Rightarrow> int option" where
  "parse_digits [] acc prev = (if prev then Some acc else None)"
| "parse_digits (c # cs) acc prev =
     (if is_digit c then parse_digits cs (acc * 10 + (int (code c) - 48)) True
      else if c = CHR ''_'' \<and> prev \<and> cs \<noteq> [] then parse_digits cs acc False
      else None)"

definition py_int :: "string \<Rightarrow> int option" where
  "py_int s =
     (case int_strip s of
        [] \<Rightarrow> None
      | c # cs \<Rightarrow>
          if max_str_digits < length (filter is_digit (c # cs)) then None
          else if c = CHR ''+'' then parse_digits cs 0 False
          else if c = CHR ''-'' then map_option uminus (parse_digits cs 0 False)
          else parse_digits (c # cs) 0 False)"

text \<open>\<^verbatim>\<open>str(n)\<close> and \<^verbatim>\<open>f"{n}"\<close> for an \<^verbatim>\<open>int\<close>.\<close>

fun digits_of :: "nat \<Rightarrow> string" where
  "digits_of n = (if n < 10 then [char_of (48 + n)] else digits_of (n div 10) @ [char_of (48 + n mod 10)])"

definition str_int :: "int \<Rightarrow> string" where
  "str_int n = (if n < 0 then CHR ''-'' # digits_of (nat (- n)) else digits_of (nat n))"

text \<open>\<^verbatim>\<open>Path(p).stem\<close> for a POSIX path: the last component that is neither empty nor
  \<^verbatim>\<open>.\<close>, without its last suffix.\<close>

fun split_on :: "char \<Rightarrow> string \<Rightarrow> string list" where
  "split_on d [] = [[]]"
| "split_on d (c # cs) =
     (if c = d then [] # split_on d cs
      else (case split_on d cs of l # ls \<Rightarrow> (c # l) # ls | [] \<Rightarrow> [[c]]))"

definition path_name :: "string \<Rightarrow> string" where
  "path_name p =
     (case rev (filter (\<lambda>part. part \<noteq> [] \<and> part \<noteq> ''.'') (split_on CHR ''/'' p)) of
        [] \<Rightarrow> [] | n # _ \<Rightarrow> n)"

definition rfind_dot :: "string \<Rightarrow> nat option" where
  "rfind_dot s =
     (case filter (\<lambda>i. s ! i = CHR ''.'') (rev [0 ..< length s]) of [] \<Rightarrow> None | i # _ \<Rightarrow> Some i)"

definition path_stem :: "string \<Rightarrow> string" where
  "path_stem p =
     (let name = path_name p in
      case rfind_dot name of
        None \<Rightarrow> name
      | Some i \<Rightarrow> if 0 < i \<and> i < length name - 1 then take i name else name)"


section \<open>The vehicle of a manual\<close>

text \<open>The dictionary \<^verbatim>\<open>{"make": .., "model": .., "year": ..}\<close> (the field names carry a
  prefix: \<open>make\<close> is taken by the record package).\<close>

record vehicle =
  veh_make :: string
  veh_model :: string
  veh_year :: int

definition known_makes :: "(string \<times> string) list" where
  "known_makes =
     [(''toyota'', ''Toyota''), (''honda'', ''Honda''), (''ford'', ''Ford''),
      (''chevrolet'', ''Chevrolet''), (''nissan'', ''Nissan''), (''bmw'', ''BMW''),
      (''mercedes'', ''Mercedes-Benz''), (''hyundai'', ''Hyundai''), (''kia'', ''Kia''),
      (''subaru'', ''Subaru''), (''mazda'', ''Mazda''), (''lexus'', ''Lexus'')]"

text \<open>\<^verbatim>\<open>(19|20)\d{2}\<close>, and the patterns removed from the model name.\<close>

definition RE_YEAR :: regex where
  "RE_YEAR = Seq [Choice [Str ''19'', Str ''20''], Rep 2 2 (Cls is_digit)]"

definition dash_or_underscore :: "char \<Rightarrow> bool" where
  "dash_or_underscore c = (c = CHR ''-'' \<or> c = CHR ''_'')"

definition model_noise :: "regex list" where
  "model_noise =
     [RE_YEAR,
      Seq [Str ''repair'', Opt (Cls dash_or_underscore), Str ''manual''],
      Seq [Str ''service'', Opt (Cls dash_or_underscore), Str ''manual''],
      Str ''owner'']"

definition detect_vehicle_from_filename :: "string \<Rightarrow> vehicle" where
  "detect_vehicle_from_filename pdf_path =
     (let name = lower (path_stem pdf_path);
          y = (case re_search no_flags RE_YEAR name of
                 None \<Rightarrow> 0
               | Some m \<Rightarrow> (case py_int m of Some n \<Rightarrow> n | None \<Rightarrow> 0));
          mk = (case filter (\<lambda>kv. contains name (fst kv)) known_makes of
                  [] \<Rightarrow> [] | kv # _ \<Rightarrow> snd kv);
          m1 = foldl (\<lambda>m pat. re_sub IGNORECASE pat [] m) name model_noise;
          m2 = foldl (\<lambda>m kv. replace m (fst kv) []) m1 known_makes;
          m3 = strip (re_sub no_flags (Plus (Cls dash_or_underscore)) '' '' m2);
          m4 = (if m3 = [] then ''Unknown'' else m3);
          test_pdf = (contains name ''3s'' \<and> contains name ''gte'');
          mk' = (if test_pdf then (if mk \<noteq> [] then mk else ''Toyota'') else mk);
          m5 = (if test_pdf then ''3S-GTE'' else m4)
      in \<lparr>veh_make = (if mk' \<noteq> [] then mk' else ''Unknown''), veh_model = m5, veh_year = y\<rparr>)"


section \<open>The command line\<close>

text \<open>The loop \<^verbatim>\<open>while i < len(args) - 1\<close> over the optional arguments. The list is
  \<^verbatim>\<open>args[i:]\<close>; the loop goes on while it has two elements or more. The state is the
  vehicle and \<^verbatim>\<open>max_pages\<close>.\<close>

definition recognized_flags :: "string list" where
  "recognized_flags = [''--make'', ''--model'', ''--year'', ''--max-pages'']"

fun parse_overrides :: "string list \<Rightarrow> vehicle \<times> int \<Rightarrow> error + vehicle \<times> int" where
  "parse_overrides (a # v # rest) (veh, max_pages) =
     (if a = ''--make'' then parse_overrides rest (veh\<lparr>veh_make := v\<rparr>, max_pages)
      else if a = ''--model'' then parse_overrides rest (veh\<lparr>veh_model := v\<rparr>, max_pages)
      else if a = ''--year'' then
        (case py_int v of
           None \<Rightarrow> Inl ValueError
         | Some y \<Rightarrow> parse_overrides rest (veh\<lparr>veh_year := y\<rparr>, max_pages))
      else if a = ''--max-pages'' then
        (case py_int v of
           None \<Rightarrow> Inl ValueError
         | Some n \<Rightarrow> parse_overrides rest (veh, n))
      else parse_overrides (v # rest) (veh, max_pages))"
| "parse_overrides args st = Inr st"

text \<open>The lines of \<^verbatim>\<open>main\<close> between the two checks and the call of \<^verbatim>\<open>process_pdf\<close>:
  with no optional argument the vehicle stays \<^verbatim>\<open>None\<close>; with one or more the overrides
  start from the vehicle of the file name.\<close>

definition parse_args :: "string \<Rightarrow> string list \<Rightarrow> error + vehicle option \<times> int" where
  "parse_args pdf_path args =
     (if args = [] then Inr (None, 0)
      else (case parse_overrides args (detect_vehicle_from_filename pdf_path, 0) of
              Inl e \<Rightarrow> Inl e
            | Inr (veh, max_pages) \<Rightarrow> Inr (Some veh, max_pages)))"

section \<open>Stage 2: entities by pattern\<close>

text \<open>The nine patterns of the source. Two of them name characters above U+00FF (the
  en dash U+2013 beside the hyphen, the letter U+03A9 for ohm); no modelled text holds
  such a character, and the pattern element for it matches nothing.\<close>

definition Beyond :: regex where
  "Beyond = Cls (\<lambda>c. False)"

definition hyphen :: regex where
  "hyphen = Choice [Lit CHR ''-'', Beyond]"

definition number :: regex where
  "number = Seq [Plus (Cls is_digit), Opt (Seq [Lit CHR ''.'', Plus (Cls is_digit)])]"

definition spaces :: regex where
  "spaces = Star (Cls isspace)"

definition one_of :: "string \<Rightarrow> regex" where
  "one_of cs = Cls (\<lambda>c. c \<in> set cs)"

text \<open>\<^verbatim>\<open>\b[0-9]{4,5}[-(U+2013)][0-9A-Z]{4,8}\b\<close>\<close>

definition RE_PART_NUMBER :: regex where
  "RE_PART_NUMBER =
     Seq [Bnd, Rep 4 5 (Cls is_digit), hyphen, Rep 4 8 (Cls (\<lambda>c. is_digit c \<or> is_AZ c)), Bnd]"

text \<open>\<^verbatim>\<open>\b\d+(?:\.\d+)?\s*[Vv](?:olt(?:s)?)?\b\<close>\<close>

definition RE_VOLTAGE :: regex where
  "RE_VOLTAGE =
     Seq [Bnd, number, spaces, one_of ''Vv'', Opt (Seq [Str ''olt'', Opt (Lit CHR ''s'')]), Bnd]"

text \<open>\<^verbatim>\<open>\b\d+(?:\.\d+)?\s*[Aa](?:mp(?:s|ere(?:s)?)?)?\b\<close>\<close>

definition RE_AMPERAGE :: regex where
  "RE_AMPERAGE =
     Seq [Bnd, number, spaces, one_of ''Aa'',
          Opt (Seq [Str ''mp'', Opt (Choice [Lit CHR ''s'', Seq [Str ''ere'', Opt (Lit CHR ''s'')]])]),
          Bnd]"

text \<open>\<^verbatim>\<open>\b\d+(?:\.\d+)?\s*(?:(U+03A9)|[Kk](U+03A9)|ohm(?:s)?)\b\<close>\<close>

definition RE_RESISTANCE :: regex where
  "RE_RESISTANCE =
     Seq [Bnd, number, spaces,
          Choice [Beyond, Seq [one_of ''Kk'', Beyond], Seq [Str ''ohm'', Opt (Lit CHR ''s'')]],
          Bnd]"

text \<open>\<^verbatim>\<open>\b\d+(?:\.\d+)?\s*(?:N[(U+00B7).]m|ft[(U+00B7).\-]?lb(?:f)?|kgf[(U+00B7).]cm)\b\<close>; the middle dot is U+00B7.\<close>

definition RE_TORQUE :: regex where
  "RE_TORQUE =
     Seq [Bnd, number, spaces,
          Choice [Seq [Lit CHR ''N'', one_of [CHR 0xB7, CHR ''.''], Lit CHR ''m''],
                  Seq [Str ''ft'', Opt (one_of [CHR 0xB7, CHR ''.'', CHR ''-'']), Str ''lb'',
                       Opt (Lit CHR ''f'')],
                  Seq [Str ''kgf'', one_of [CHR 0xB7, CHR ''.''], Str ''cm'']],
          Bnd]"

text \<open>\<^verbatim>\<open>\b[A-Z][0-9]{1,4}\b\<close>\<close>

definition RE_CONNECTOR :: regex where
  "RE_CONNECTOR = Seq [Bnd, Cls is_AZ, Rep 1 4 (Cls is_digit), Bnd]"

text \<open>The wire colours, one optionally joined to a second by a slash; with
  \<^verbatim>\<open>re.IGNORECASE\<close>.\<close>

definition colour :: regex where
  "colour =
     Choice [Str ''BLK'', Str ''WHT'', Str ''RED'', Str ''GRN'', Str ''BLU'', Str ''YEL'',
             Str ''ORG'', Str ''PNK'', Str ''BRN'', Str ''GRY'', Str ''VIO'', Str ''PUR'',
             Str ''TAN'',
             Seq [Str ''LT'', spaces, Str ''GRN''], Seq [Str ''LT'', spaces, Str ''BLU''],
             Seq [Str ''DK'', spaces, Str ''GRN''], Seq [Str ''DK'', spaces, Str ''BLU'']]"

definition RE_WIRE_COLORS :: regex where
  "RE_WIRE_COLORS = Seq [Bnd, colour, Opt (Seq [Lit CHR ''/'', colour]), Bnd]"

text \<open>\<^verbatim>\<open>\b(?:DOT\s*[34]|ATF(?:\s*WS)?|CVT\s*fluid|[05]W[-(U+2013)][23]0|75W[-(U+2013)]90|GL[-(U+2013)][45])\b\<close>,
  with \<^verbatim>\<open>re.IGNORECASE\<close>.\<close>

definition RE_FLUID :: regex where
  "RE_FLUID =
     Seq [Bnd,
          Choice [Seq [Str ''DOT'', spaces, one_of ''34''],
                  Seq [Str ''ATF'', Opt (Seq [spaces, Str ''WS''])],
                  Seq [Str ''CVT'', spaces, Str ''fluid''],
                  Seq [one_of ''05'', Lit CHR ''W'', hyphen, one_of ''23'', Lit CHR ''0''],
                  Seq [Str ''75W'', hyphen, Str ''90''],
                  Seq [Str ''GL'', hyphen, one_of ''45'']],
          Bnd]"

text \<open>\<^verbatim>\<open>\b(?:ECU|PCM|BCM|TCM|ABS|SRS|HVAC|sensor|relay|fuse|actuator|solenoid|motor|pump|valve|switch)\b\<close>,
  with \<^verbatim>\<open>re.IGNORECASE\<close>.\<close>

definition RE_COMPONENT_TYPES :: regex where
  "RE_COMPONENT_TYPES =
     Seq [Bnd,
          Choice [Str ''ECU'', Str ''PCM'', Str ''BCM'', Str ''TCM'', Str ''ABS'', Str ''SRS'',
                  Str ''HVAC'', Str ''sensor'', Str ''relay'', Str ''fuse'', Str ''actuator'',
                  Str ''solenoid'', Str ''motor'', Str ''pump'', Str ''valve'', Str ''switch''],
          Bnd]"

text \<open>\<^verbatim>\<open>list(set(xs))\<close>: the elements of \<open>xs\<close>, each once. Python fixes no order for them;
  the model lists them by first occurrence, and the properties below speak of the set
  of elements only.\<close>

definition list_set :: "string list \<Rightarrow> string list" where
  "list_set xs = remdups xs"

text \<open>The dictionary that \<^verbatim>\<open>regex_ner\<close> returns, as the list of its items in the order
  of the source.\<close>

type_synonym entities = "(string \<times> string list) list"

definition regex_ner :: "string \<Rightarrow> entities" where
  "regex_ner text =
     [(''part_numbers'', list_set (findall no_flags RE_PART_NUMBER text)),
      (''voltages'', list_set (findall no_flags RE_VOLTAGE text)),
      (''amperages'', list_set (findall no_flags RE_AMPERAGE text)),
      (''resistances'', list_set (findall no_flags RE_RESISTANCE text)),
      (''torques'', list_set (findall no_flags RE_TORQUE text)),
      (''wire_colors'', list_set (findall IGNORECASE RE_WIRE_COLORS text)),
      (''fluids'', list_set (findall IGNORECASE RE_FLUID text)),
      (''component_types'', list_set (findall IGNORECASE RE_COMPONENT_TYPES text)),
      (''connectors'', list_set (take 20 (findall no_flags RE_CONNECTOR text)))]"

text \<open>\<^verbatim>\<open>ner.get(key, [])\<close>; for a key of the dictionary it is \<^verbatim>\<open>ner[key]\<close>.\<close>

definition ner_get :: "entities \<Rightarrow> string \<Rightarrow> string list" where
  "ner_get ner key = (case map_of ner key of None \<Rightarrow> [] | Some v \<Rightarrow> v)"

section \<open>Stage 3: the language model\<close>

text \<open>A JSON value as \<^verbatim>\<open>json.loads\<close> returns it; an object is the list of its items.\<close>

datatype json =
    JNull
  | JBool bool
  | JInt int
  | JFloat pyfloat
  | JStr string
  | JArr "json list"
  | JObj "(string \<times> json) list"

text \<open>Python's truth value of such a value (\<^verbatim>\<open>if x:\<close>).\<close>

fun truthy :: "json \<Rightarrow> bool" where
  "truthy JNull = False"
| "truthy (JBool b) = b"
| "truthy (JInt n) = (n \<noteq> 0)"
| "truthy (JFloat x) = (x \<noteq> Finite 0)"
| "truthy (JStr s) = (s \<noteq> [])"
| "truthy (JArr xs) = (xs \<noteq> [])"
| "truthy (JObj kvs) = (kvs \<noteq> [])"

text \<open>\<^verbatim>\<open>d.get(key, default)\<close> and \<^verbatim>\<open>d[key] = value\<close> on a dictionary.\<close>

definition dict_get :: "(string \<times> json) list \<Rightarrow> string \<Rightarrow> json \<Rightarrow> json" where
  "dict_get d key dflt = (case map_of d key of None \<Rightarrow> dflt | Some v \<Rightarrow> v)"

fun dict_set :: "(string \<times> json) list \<Rightarrow> string \<Rightarrow> json \<Rightarrow> (string \<times> json) list" where
  "dict_set [] key v = [(key, v)]"
| "dict_set ((k, x) # d) key v = (if k = key then (k, v) # d else (k, x) # dict_set d key v)"

text \<open>The request: the user message of \<^verbatim>\<open>client.messages.create\<close> (the model name, the
  token limit and the system prompt are constants of the call). The response: the text of
  its first content block and the two token counts of \<^verbatim>\<open>response.usage\<close>.\<close>

record llm_request =
  user_content :: string

record llm_response =
  reply :: string
  input_tokens :: int
  output_tokens :: int

text \<open>
  What the program reads from outside itself. \<open>llm n\<close> answers the \<open>n\<close>-th request of a
  run, \<open>None\<close> when the call raises. \<open>json_loads\<close> is \<^verbatim>\<open>json.loads\<close> (\<open>None\<close> when it
  raises), \<open>md5_hex s\<close> is \<^verbatim>\<open>hashlib.md5(s.encode()).hexdigest()\<close>, \<open>py_str\<close> is \<^verbatim>\<open>str\<close> on
  a JSON value that is not a string, \<open>now\<close> the formatted clock, \<open>pdf_open\<close> the loader
  (\<open>None\<close> when it raises).
\<close>

record world =
  api_key :: "string option"
  anthropic_ok :: bool
  llm :: "nat \<Rightarrow> llm_request \<Rightarrow> llm_response option"
  json_loads :: "string \<Rightarrow> json option"
  md5_hex :: "string \<Rightarrow> string"
  py_str :: "json \<Rightarrow> string"
  now :: string
  path_exists :: "string \<Rightarrow> bool"
  abspath :: "string \<Rightarrow> string"
  pdf_open :: "string \<Rightarrow> page list option"

text \<open>The cost: \<^verbatim>\<open>round((input_tokens * 3.0 + output_tokens * 15.0) / 1_000_000, 6)\<close>,
  every operation on floats; the three \<^verbatim>\<open>int\<close> operands are converted first.\<close>

definition cost_usd :: "int \<Rightarrow> int \<Rightarrow> error + pyfloat" where
  "cost_usd n_in n_out =
     (case fl_of_int n_in of
        Inl e \<Rightarrow> Inl e
      | Inr a \<Rightarrow>
     (case fl_of_int n_out of
        Inl e \<Rightarrow> Inl e
      | Inr b \<Rightarrow>
     (case fl_of_int 1000000 of
        Inl e \<Rightarrow> Inl e
      | Inr m \<Rightarrow>
     (case fl_div (fl_add (fl_mul a (Finite 3)) (fl_mul b (Finite 15))) m of
        Inl e \<Rightarrow> Inl e
      | Inr q \<Rightarrow> Inr (py_round6 q)))))"

text \<open>The Markdown fence, and the two patterns that remove it:
  \<^verbatim>\<open>^```(?:json)?\n?\<close> and \<^verbatim>\<open>\n?```$\<close>.\<close>

definition fence :: string where
  "fence = replicate 3 (CHR 0x60)"

definition RE_FENCE_OPEN :: regex where
  "RE_FENCE_OPEN = Seq [Bol, Str fence, Opt (Str ''json''), Opt (Lit (CHR 0x0A))]"

definition RE_FENCE_CLOSE :: regex where
  "RE_FENCE_CLOSE = Seq [Opt (Lit (CHR 0x0A)), Str fence, Eol]"

definition strip_fences :: "string \<Rightarrow> string" where
  "strip_fences t =
     (if take 3 t = fence
      then re_sub no_flags RE_FENCE_CLOSE [] (re_sub no_flags RE_FENCE_OPEN [] t)
      else t)"

text \<open>\<^verbatim>\<open>ner[key]\<close>: \<^verbatim>\<open>KeyError\<close> when the dictionary has no such key.\<close>

definition ner_item :: "entities \<Rightarrow> string \<Rightarrow> error + string list" where
  "ner_item ner key = (case map_of ner key of None \<Rightarrow> Inl KeyError | Some v \<Rightarrow> Inr v)"

definition ner_context :: "entities \<Rightarrow> error + string" where
  "ner_context ner =
     (case ner_item ner ''part_numbers'' of
        Inl e \<Rightarrow> Inl e
      | Inr parts \<Rightarrow>
          (case ner_item ner ''component_types'' of
             Inl e \<Rightarrow> Inl e
           | Inr comps \<Rightarrow>
               Inr ((if parts \<noteq> []
                     then [CHR 0x0A] @ ''Pre-extracted part numbers: '' @ join '', '' parts
                     else [])
                    @ (if comps \<noteq> []
                       then [CHR 0x0A] @ ''Detected component types: '' @ join '', '' comps
                       else []))))"

definition make_request :: "string \<Rightarrow> string \<Rightarrow> vehicle \<Rightarrow> entities \<Rightarrow> error + llm_request" where
  "make_request section_title section_content veh ner =
     (case ner_context ner of
        Inl e \<Rightarrow> Inl e
      | Inr context \<Rightarrow>
          Inr \<lparr>user_content =
                 ''Vehicle: '' @ str_int (veh_year veh) @ '' '' @ veh_make veh @ '' ''
                 @ veh_model veh @ [CHR 0x0A] @ ''Manual section: '' @ section_title
                 @ [CHR 0x0A] @ context @ [CHR 0x0A, CHR 0x0A] @ take 3000 section_content\<rparr>)"

text \<open>\<^verbatim>\<open>claude_extract\<close>, as the \<open>n\<close>-th request of the run. Every exception inside it is
  caught and gives \<^verbatim>\<open>None\<close>: a key missing from the entities (then no request is sent), a
  failing call, a reply that is not JSON, a token count too large for a float, and a JSON
  value that is no object (the item assignment raises \<^verbatim>\<open>TypeError\<close>).\<close>

definition claude_extract ::
  "world \<Rightarrow> nat \<Rightarrow> string \<Rightarrow> string \<Rightarrow> vehicle \<Rightarrow> entities \<Rightarrow> (string \<times> json) list option" where
  "claude_extract W n section_title section_content veh ner =
     (case make_request section_title section_content veh ner of
        Inl e \<Rightarrow> None
      | Inr request \<Rightarrow>
     (case llm W n request of
        None \<Rightarrow> None
      | Some response \<Rightarrow>
     (case json_loads W (strip_fences (strip (reply response))) of
        None \<Rightarrow> None
      | Some parsed \<Rightarrow>
     (case cost_usd (input_tokens response) (output_tokens response) of
        Inl e \<Rightarrow> None
      | Inr cost \<Rightarrow>
     (case parsed of
        JObj result \<Rightarrow>
          Some (dict_set
                 (dict_set (dict_set result ''_cost_usd'' (JFloat cost))
                    ''_input_tokens'' (JInt (input_tokens response)))
                 ''_output_tokens'' (JInt (output_tokens response)))
      | _ \<Rightarrow> None)))))"


section \<open>Stage 4: the output record\<close>

text \<open>The \<^verbatim>\<open>metadata\<close> object and the record that is written. What comes from the
  language model is kept as the JSON value it is.\<close>

record metadata =
  md_vehicle :: string
  vehicle_info :: vehicle
  md_section :: string
  components :: string
  doc_type :: json
  extracted_components :: json
  extracted_relationships :: json
  extracted_procedures :: json
  confidence :: json
  page_range :: string
  part_numbers :: "string list"
  ner_results :: entities
  claude_cost_usd :: json

record knowledge_record =
  source :: string
  source_id :: string
  out_title :: string
  out_content :: string
  author :: string
  url :: string
  published_at :: string
  scraped_at :: string
  out_metadata :: metadata

text \<open>\<^verbatim>\<open>f"{x}"\<close> on a JSON value: a string is itself.\<close>

definition format_json :: "world \<Rightarrow> json \<Rightarrow> string" where
  "format_json W j = (case j of JStr s \<Rightarrow> s | _ \<Rightarrow> py_str W j)"

text \<open>\<^verbatim>\<open>c["name"]\<close> for an element of the components: only an object with that key has
  it. \<^verbatim>\<open>[c["name"] for c in components]\<close> needs a list of such objects: iterating over an
  object or a string gives strings, which have no item \<^verbatim>\<open>"name"\<close>, and the other values
  cannot be iterated.\<close>

definition name_of :: "json \<Rightarrow> error + json" where
  "name_of c =
     (case c of
        JObj kvs \<Rightarrow> (case map_of kvs ''name'' of None \<Rightarrow> Inl KeyError | Some v \<Rightarrow> Inr v)
      | _ \<Rightarrow> Inl TypeError)"

fun names_of :: "json list \<Rightarrow> error + json list" where
  "names_of [] = Inr []"
| "names_of (c # cs) =
     (case name_of c of
        Inl e \<Rightarrow> Inl e
      | Inr v \<Rightarrow> (case names_of cs of Inl e \<Rightarrow> Inl e | Inr vs \<Rightarrow> Inr (v # vs)))"

text \<open>\<^verbatim>\<open>", ".join(xs)\<close> raises \<^verbatim>\<open>TypeError\<close> unless every element is a string.\<close>

fun strings_of :: "json list \<Rightarrow> error + string list" where
  "strings_of [] = Inr []"
| "strings_of (JStr s # js) = (case strings_of js of Inl e \<Rightarrow> Inl e | Inr ss \<Rightarrow> Inr (s # ss))"
| "strings_of (j # js) = Inl TypeError"

definition comp_names :: "json \<Rightarrow> entities \<Rightarrow> error + json list" where
  "comp_names comps ner =
     (if truthy comps
      then (case comps of JArr cs \<Rightarrow> names_of cs | _ \<Rightarrow> Inl TypeError)
      else Inr (map JStr (ner_get ner ''component_types'')))"

definition slug :: "string \<Rightarrow> string" where
  "slug s = replace (lower s) '' '' ''-''"

definition make_source_id :: "vehicle \<Rightarrow> nat \<Rightarrow> string" where
  "make_source_id veh section_idx =
     ''manual:'' @ slug (veh_make veh) @ ''-'' @ slug (veh_model veh) @ ''-''
     @ str_int (veh_year veh) @ '':section-'' @ str_int (int section_idx)"

definition build_output ::
  "world \<Rightarrow> manual_section \<Rightarrow> nat \<Rightarrow> vehicle \<Rightarrow> entities \<Rightarrow> (string \<times> json) list option
     \<Rightarrow> string \<Rightarrow> error + knowledge_record" where
  "build_output W sec section_idx veh ner claude_result pdf_path =
     (let ps = pages sec;
          prange = (if ps \<noteq> [] then str_int (int (hd ps)) @ ''-'' @ str_int (int (last ps)) else []);
          use = (case claude_result of None \<Rightarrow> False | Some r \<Rightarrow> r \<noteq> []);
          r = (case claude_result of None \<Rightarrow> [] | Some r \<Rightarrow> r);
          sys = (if use then dict_get r ''system'' (JStr []) else JStr []);
          subsystem = (if use then dict_get r ''subsystem'' (JStr []) else JStr []);
          dtype = (if use then dict_get r ''doc_type'' (JStr ''overview'') else JStr ''overview'');
          comps = (if use then dict_get r ''components'' (JArr []) else JArr []);
          rels = (if use then dict_get r ''relationships'' (JArr []) else JArr []);
          procs = (if use then dict_get r ''procedures'' (JArr []) else JArr []);
          conf = (if use then dict_get r ''confidence'' (JFloat (Finite (1 / 2)))
                  else JFloat (Finite (1 / 2)));
          cost = (if use then dict_get r ''_cost_usd'' (JFloat (Finite 0)) else JFloat (Finite 0))
      in case comp_names comps ner of
           Inl e \<Rightarrow> Inl e
         | Inr names \<Rightarrow>
             (case strings_of (take 20 names) of
                Inl e \<Rightarrow> Inl e
              | Inr shown \<Rightarrow>
             (case ner_item ner ''part_numbers'' of
                Inl e \<Rightarrow> Inl e
              | Inr parts \<Rightarrow>
                  Inr \<lparr>source = ''manual'',
                       source_id = make_source_id veh section_idx,
                       out_title = title sec,
                       out_content = take 10000 (content sec),
                       author = ''OEM'',
                       url = ''file://'' @ pdf_path @ ''#page=''
                             @ str_int (if ps \<noteq> [] then int (hd ps) else 1),
                       published_at =
                         (if veh_year veh \<noteq> 0 then str_int (veh_year veh) @ ''-01-01T00:00:00Z''
                          else []),
                       scraped_at = now W,
                       out_metadata =
                         \<lparr>md_vehicle = str_int (veh_year veh) @ '' '' @ veh_make veh @ '' ''
                                        @ veh_model veh,
                          vehicle_info = veh,
                          md_section =
                            (if truthy sys then format_json W sys @ ''/'' @ format_json W subsystem
                             else title sec),
                          components = join '', '' shown,
                          doc_type = dtype,
                          extracted_components = comps,
                          extracted_relationships = rels,
                          extracted_procedures = procs,
                          confidence = conf,
                          page_range = prange,
                          part_numbers = parts,
                          ner_results = filter (\<lambda>kv. snd kv \<noteq> []) ner,
                          claude_cost_usd = cost\<rparr>\<rparr>)))"


section \<open>The pipeline\<close>

text \<open>What a run leaves behind: the files written (path and record), the requests sent
  to the language model, and the exception that ended the run, if one did. (The log, and
  the output directory that \<^verbatim>\<open>process_pdf\<close> creates before it opens the document, are
  not part of it; writing a file is taken to succeed.)\<close>

record outcome =
  written :: "(string \<times> knowledge_record) list"
  requests :: "llm_request list"
  failure :: "error option"

text \<open>\<^verbatim>\<open>os.path.join(a, b)\<close> on POSIX, and \<^verbatim>\<open>f"{idx:03d}"\<close>.\<close>

definition path_join :: "string \<Rightarrow> string \<Rightarrow> string" where
  "path_join a b =
     (if take 1 b = ''/'' then b
      else if a = [] \<or> last a = CHR ''/'' then a @ b
      else a @ ''/'' @ b)"

definition pad3 :: "nat \<Rightarrow> string" where
  "pad3 n = replicate (3 - length (str_int (int n))) CHR ''0'' @ str_int (int n)"

text \<open>\<^verbatim>\<open>hashlib.md5(section["content"][:500].encode()).hexdigest()[:8]\<close>\<close>

definition content_hash :: "world \<Rightarrow> string \<Rightarrow> string" where
  "content_hash W section_content = take 8 (md5_hex W (take 500 section_content))"

definition output_filename :: "world \<Rightarrow> vehicle \<Rightarrow> nat \<Rightarrow> string \<Rightarrow> string" where
  "output_filename W veh idx section_content =
     ''manual-'' @ slug (veh_make veh) @ ''-'' @ slug (veh_model veh) @ ''-''
     @ str_int (veh_year veh) @ ''-s'' @ pad3 idx @ ''-'' @ content_hash W section_content
     @ ''.json''"

text \<open>The client: present when the key is set (a non-empty string) and the library can be
  set up.\<close>

definition credential :: "world \<Rightarrow> bool" where
  "credential W = (case api_key W of None \<Rightarrow> False | Some k \<Rightarrow> k \<noteq> [])"

definition have_client :: "world \<Rightarrow> bool" where
  "have_client W = (credential W \<and> anthropic_ok W)"

text \<open>The log line after an extraction that gave a result takes \<^verbatim>\<open>len\<close> of the reply's
  \<^verbatim>\<open>components\<close> and \<^verbatim>\<open>relationships\<close> (an empty list when the key is missing). \<^verbatim>\<open>len\<close> raises
  \<^verbatim>\<open>TypeError\<close> on \<^verbatim>\<open>null\<close>, a boolean and a number.\<close>

fun has_len :: "json \<Rightarrow> bool" where
  "has_len (JStr s) = True"
| "has_len (JArr xs) = True"
| "has_len (JObj kvs) = True"
| "has_len v = False"

definition log_extraction :: "(string \<times> json) list \<Rightarrow> error option" where
  "log_extraction r =
     (if has_len (dict_get r ''components'' (JArr []))
         \<and> has_len (dict_get r ''relationships'' (JArr []))
      then None else Some TypeError)"

text \<open>The loop \<^verbatim>\<open>for idx, section in enumerate(sections)\<close>. A request is sent when the
  client is there, the section is long enough and the request can be built. An exception
  of the log line or of \<^verbatim>\<open>build_output\<close> is not caught: it ends the run, after the files
  written so far.\<close>

fun process_sections ::
  "world \<Rightarrow> vehicle \<Rightarrow> string \<Rightarrow> string \<Rightarrow> (nat \<times> manual_section) list \<Rightarrow> outcome \<Rightarrow> outcome" where
  "process_sections W veh pdf_path output_dir [] out = out"
| "process_sections W veh pdf_path output_dir ((idx, sec) # rest) out =
     (if should_skip_section (title sec) (content sec)
      then process_sections W veh pdf_path output_dir rest out
      else
        let ner = regex_ner (content sec);
            ask = (have_client W \<and> length (strip (content sec)) > 200);
            claude_result =
              (if ask then claude_extract W (length (requests out)) (title sec) (content sec) veh ner
               else None);
            sent = (if ask
                    then (case make_request (title sec) (content sec) veh ner of
                            Inl e \<Rightarrow> []
                          | Inr request \<Rightarrow> [request])
                    else []);
            out1 = out\<lparr>requests := requests out @ sent\<rparr>;
            logged = (case claude_result of
                        None \<Rightarrow> None
                      | Some r \<Rightarrow> if r \<noteq> [] then log_extraction r else None)
        in case logged of
             Some e \<Rightarrow> out1\<lparr>failure := Some e\<rparr>
           | None \<Rightarrow>
               (case build_output W sec idx veh ner claude_result pdf_path of
                  Inl e \<Rightarrow> out1\<lparr>failure := Some e\<rparr>
                | Inr built \<Rightarrow>
                    process_sections W veh pdf_path output_dir rest
                      (out1\<lparr>written := written out1
                         @ [(path_join output_dir (output_filename W veh idx (content sec)), built)]\<rparr>)))"

definition no_outcome :: outcome where
  "no_outcome = \<lparr>written = [], requests = [], failure = None\<rparr>"

definition process_pdf :: "world \<Rightarrow> string \<Rightarrow> string \<Rightarrow> vehicle option \<Rightarrow> int \<Rightarrow> outcome" where
  "process_pdf W pdf_path0 output_dir vehicle_override max_pages =
     (let pdf_path = abspath W pdf_path0;
          veh = (case vehicle_override of
                   Some v \<Rightarrow> v
                 | None \<Rightarrow> detect_vehicle_from_filename pdf_path)
      in case pdf_open W pdf_path of
           None \<Rightarrow> no_outcome\<lparr>failure := Some LoadError\<rparr>
         | Some pdf_pages \<Rightarrow>
             (let sections = extract_sections pdf_pages max_pages in
              if sections = [] then no_outcome
              else process_sections W veh pdf_path output_dir (enumerate 0 sections) no_outcome))"

text \<open>\<^verbatim>\<open>main\<close>, on \<^verbatim>\<open>sys.argv\<close>. The exit status of the process is 0 when \<^verbatim>\<open>main\<close> returns,
  the argument of \<^verbatim>\<open>sys.exit\<close>, and 1 after an uncaught exception.\<close>

definition main :: "world \<Rightarrow> string list \<Rightarrow> outcome" where
  "main W argv =
     (if length argv < 3 then no_outcome\<lparr>failure := Some (SystemExit 1)\<rparr>
      else if \<not> path_exists W (argv ! 1) then no_outcome\<lparr>failure := Some (SystemExit 1)\<rparr>
      else (case parse_args (argv ! 1) (drop 3 argv) of
              Inl e \<Rightarrow> no_outcome\<lparr>failure := Some e\<rparr>
            | Inr (veh, max_pages) \<Rightarrow> process_pdf W (argv ! 1) (argv ! 2) veh max_pages))"

definition exit_status :: "outcome \<Rightarrow> int" where
  "exit_status out =
     (case failure out of None \<Rightarrow> 0 | Some (SystemExit n) \<Rightarrow> n | Some _ \<Rightarrow> 1)"


section \<open>Notions used to state the properties\<close>










text \<open>The heading scan as the specification words it: the first five non-empty lines of
  the page are inspected.\<close>

definition nonempty_lines :: "string \<Rightarrow> string list" where
  "nonempty_lines text = filter (\<lambda>l. l \<noteq> []) (map strip (split_nl text))"

definition detect_heading_spec :: "string \<Rightarrow> string option" where
  "detect_heading_spec text = find_heading (take 5 (nonempty_lines text))"

text \<open>The first heading signal among stripped lines.\<close>

definition first_signal :: "string list \<Rightarrow> string option" where
  "first_signal ls =
     (case filter (\<lambda>l. line_heading l \<noteq> None) ls of [] \<Rightarrow> None | l # _ \<Rightarrow> line_heading l)"

text \<open>A record as the pipeline builds it without the language model, and the identity of
  the files of a run: path and \<^verbatim>\<open>source_id\<close>.\<close>

definition regex_only :: "knowledge_record \<Rightarrow> bool" where
  "regex_only r =
     (confidence (out_metadata r) = JFloat (Finite (1 / 2))
      \<and> doc_type (out_metadata r) = JStr ''overview''
      \<and> claude_cost_usd (out_metadata r) = JFloat (Finite 0))"

definition ids :: "outcome \<Rightarrow> (string \<times> string) list" where
  "ids out = map (\<lambda>pr. (fst pr, source_id (snd pr))) (written out)"

text \<open>Two worlds for examples. In the first no key is set and the manual has one page
  with a heading and a body; in the second the manual is a scan, its one page without
  text.\<close>

definition example_page :: page where
  "example_page =
     \<lparr>page_text = Some (''ENGINE MANAGEMENT SYSTEM'' @ [CHR 0x0A]
                          @ concat (replicate 16 ''relay R1 12V '')),
      page_tables = []\<rparr>"

definition example_section :: manual_section where
  "example_section =
     \<lparr>title = ''Engine Management System'',
      content = ''ENGINE MANAGEMENT SYSTEM'' @ [CHR 0x0A]
                @ concat (replicate 16 ''relay R1 12V '') @ [CHR 0x0A],
      pages = [1],
      tables = []\<rparr>"

definition example_vehicle :: vehicle where
  "example_vehicle = \<lparr>veh_make = ''Toyota'', veh_model = ''camry'', veh_year = 2015\<rparr>"

definition example_world :: world where
  "example_world =
     \<lparr>api_key = None, anthropic_ok = True, llm = (\<lambda>n r. None), json_loads = (\<lambda>s. None),
      md5_hex = (\<lambda>s. ''0123456789abcdef0123456789abcdef''), py_str = (\<lambda>j. []),
      now = ''2025-01-01T00:00:00Z'', path_exists = (\<lambda>p. True), abspath = (\<lambda>p. ''/data/'' @ p),
      pdf_open = (\<lambda>p. Some [example_page])\<rparr>"

definition scan_world :: world where
  "scan_world = example_world\<lparr>pdf_open := (\<lambda>p. Some [\<lparr>page_text = None, page_tables = []\<rparr>])\<rparr>"

definition example_argv :: "string list" where
  "example_argv = [''manual_worker.py'', ''toyota-camry-2015.pdf'', ''out'']"

text \<open>A world with a key, in which the language model answers every request with an empty
  JSON object and reports 1000 input and 500 output tokens.\<close>

definition llm_world :: world where
  "llm_world =
     example_world\<lparr>api_key := Some ''sk-test'',
                   llm := (\<lambda>n r. Some \<lparr>reply = ''{}'', input_tokens = 1000, output_tokens = 500\<rparr>),
                   json_loads := (\<lambda>s. Some (JObj []))\<rparr>"


section \<open>Segmentation\<close>

lemma strip_Nil_iff: "strip s = [] \<longleftrightarrow> (\<forall>c\<in>set s. isspace c)"
proof -
  have "strip s = [] \<longleftrightarrow> dropWhile isspace (rev (dropWhile isspace s)) = []"
    by (simp add: strip_def rstrip_def lstrip_def)
  also have "\<dots> \<longleftrightarrow> (\<forall>c\<in>set (dropWhile isspace s). isspace c)"
    by (simp only: dropWhile_eq_Nil_conv set_rev)
  also have "\<dots> \<longleftrightarrow> dropWhile isspace s = []"
  proof (cases "dropWhile isspace s")
    case Nil
    show ?thesis unfolding Nil by simp
  next
    case (Cons x xs)
    with hd_dropWhile[of isspace s] have "\<not> isspace x" by simp
    then show ?thesis unfolding Cons by simp
  qed
  also have "\<dots> \<longleftrightarrow> (\<forall>c\<in>set s. isspace c)"
    by (simp add: dropWhile_eq_Nil_conv)
  finally show ?thesis .
qed

lemma strip_append_nonblank:
  "strip a \<noteq> [] \<or> strip b \<noteq> [] \<Longrightarrow> strip (a @ b @ c) \<noteq> []"
  by (auto simp: strip_Nil_iff)
































section \<open>The heading scan\<close>

lemma line_heading_Nil: "line_heading [] = None"
  by code_simp

lemma first_signal_Cons:
  "first_signal (l # ls) = (case line_heading l of Some h \<Rightarrow> Some h | None \<Rightarrow> first_signal ls)"
  by (auto simp: first_signal_def split: option.splits)

lemma find_heading_first_signal: "find_heading ls = first_signal (map strip ls)"
proof (induction ls)
  case Nil
  show ?case by (simp add: first_signal_def)
next
  case (Cons l ls)
  show ?case
  proof (cases "strip l = []")
    case True
    then show ?thesis using Cons.IH by (simp add: first_signal_Cons line_heading_Nil)
  next
    case False
    then show ?thesis using Cons.IH by (simp add: first_signal_Cons Let_def split: option.splits)
  qed
qed

text \<open>
  C3 (heading scan window), as the code has it. The loop runs over
  \<^verbatim>\<open>text.split('\n')[:5]\<close>: the first five lines of the page, blank or not. The heading
  of a page is the first heading signal among these five lines, stripped (a blank line
  gives no signal), and so depends on nothing but these five lines. A signal on a later
  line is not seen, whether or not the lines before it are blank.
\<close>

theorem heading_scan_window:
  "detect_heading text = first_signal (map strip (take 5 (split_nl text)))
   \<and> (\<forall>text'. take 5 (split_nl text') = take 5 (split_nl text)
        \<longrightarrow> detect_heading text' = detect_heading text)"
  by (simp add: detect_heading_def find_heading_first_signal)

theorem heading_scan_window_witness:
  "detect_heading ''\<newline>\<newline>\<newline>\<newline>ENGINE MANAGEMENT SYSTEM\<newline>SECTION 2'' = Some ''Engine Management System''
   \<and> detect_heading ''\<newline>\<newline>\<newline>\<newline>ENGINE MANAGEMENT SYSTEM\<newline>oil'' = Some ''Engine Management System''"
proof -
  let ?t = "''\<newline>\<newline>\<newline>\<newline>ENGINE MANAGEMENT SYSTEM\<newline>SECTION 2''"
  let ?t' = "''\<newline>\<newline>\<newline>\<newline>ENGINE MANAGEMENT SYSTEM\<newline>oil''"
  have a: "first_signal (map strip (take 5 (split_nl ?t))) = Some ''Engine Management System''"
    by code_simp
  have b: "take 5 (split_nl ?t') = take 5 (split_nl ?t)"
    by code_simp
  from heading_scan_window[of ?t] a b show ?thesis
    by metis
qed

text \<open>The claim as the specification states it fails: below, the heading is the first
  non-empty line of the page, after five blank lines, and the scan does not see it.\<close>

theorem heading_scan_window_counterexample:
  "take 5 (nonempty_lines ''\<newline>\<newline>\<newline>\<newline>\<newline>ENGINE MANAGEMENT SYSTEM\<newline>body'') = [''ENGINE MANAGEMENT SYSTEM'', ''body'']
   \<and> line_heading ''ENGINE MANAGEMENT SYSTEM'' = Some ''Engine Management System''
   \<and> detect_heading_spec ''\<newline>\<newline>\<newline>\<newline>\<newline>ENGINE MANAGEMENT SYSTEM\<newline>body'' = Some ''Engine Management System''
   \<and> detect_heading ''\<newline>\<newline>\<newline>\<newline>\<newline>ENGINE MANAGEMENT SYSTEM\<newline>body'' = None"
  by code_simp

section \<open>The skip decision\<close>

text \<open>
  C6 (skip monotonicity): a section whose content, stripped of whitespace, is shorter than
  200 characters is skipped, whatever its title and whatever its text holds.
\<close>

theorem skip_short_content:
  "length (strip section_content) < 200 \<Longrightarrow> should_skip_section section_title section_content"
  by (simp add: should_skip_section_def)

theorem skip_short_content_witness:
  "length (strip ''  Relay R12 feeds fuse F3 at 12V, part 12345-ABCD1.  '') < 200
   \<and> should_skip_section ''ENGINE ELECTRICAL'' ''  Relay R12 feeds fuse F3 at 12V, part 12345-ABCD1.  ''"
proof -
  have a: "length (strip ''  Relay R12 feeds fuse F3 at 12V, part 12345-ABCD1.  '') < 200"
    by code_simp
  from skip_short_content[OF a] a show ?thesis by simp
qed

lemma ratio_3_10:
  assumes "section_content \<noteq> []" "10 * alpha_count section_content = 3 * length section_content"
  shows "alpha_ratio section_content = binary64 (3 / 10)"
proof -
  have n: "max (length section_content) 1 = length section_content"
    using assms(1) by (cases section_content) auto
  have "10 * rat_of_nat (alpha_count section_content) = 3 * rat_of_nat (length section_content)"
    using assms(2) by (metis of_nat_mult of_nat_numeral)
  then have "rat_of_nat (alpha_count section_content) / rat_of_nat (length section_content) = 3 / 10"
    using assms(1) by (simp add: field_simps)
  then have "rat_of_int (int (alpha_count section_content))
      / rat_of_int (int (max (length section_content) 1)) = 3 / 10"
    by (simp only: n of_int_of_nat_eq)
  then show ?thesis unfolding alpha_ratio_def truediv_def by (rule arg_cong)
qed

lemma ratio_29_100:
  assumes "section_content \<noteq> []" "100 * alpha_count section_content = 29 * length section_content"
  shows "alpha_ratio section_content = binary64 (29 / 100)"
proof -
  have n: "max (length section_content) 1 = length section_content"
    using assms(1) by (cases section_content) auto
  have "100 * rat_of_nat (alpha_count section_content) = 29 * rat_of_nat (length section_content)"
    using assms(2) by (metis of_nat_mult of_nat_numeral)
  then have "rat_of_nat (alpha_count section_content) / rat_of_nat (length section_content) = 29 / 100"
    using assms(1) by (simp add: field_simps)
  then have "rat_of_int (int (alpha_count section_content))
      / rat_of_int (int (max (length section_content) 1)) = 29 / 100"
    by (simp only: n of_int_of_nat_eq)
  then show ?thesis unfolding alpha_ratio_def truediv_def by (rule arg_cong)
qed

lemma binary64_29_lt_30: "binary64 (29 / 100) < binary64 (3 / 10)"
  by code_simp

text \<open>
  C7 (the alpha-ratio boundary is strict). The source divides two integers and compares
  the float quotient with the literal \<^verbatim>\<open>0.3\<close>. When the letters are exactly three
  tenths of the characters the quotient is the float of the literal and the test
  \<^verbatim>\<open>alpha_ratio < 0.3\<close> fails, so the section is skipped for the title or the length
  only; when they are exactly 29 hundredths the test succeeds and the section is skipped.
\<close>

theorem alpha_ratio_boundary:
  "(section_content \<noteq> [] \<and> 10 * alpha_count section_content = 3 * length section_content
      \<longrightarrow> \<not> alpha_ratio section_content < binary64 (3 / 10)
          \<and> (should_skip_section section_title section_content
               \<longleftrightarrow> matches IGNORECASE SKIP_PATTERNS section_title
                    \<or> length (strip section_content) < 200))
   \<and> (section_content \<noteq> [] \<and> 100 * alpha_count section_content = 29 * length section_content
      \<longrightarrow> alpha_ratio section_content < binary64 (3 / 10)
          \<and> should_skip_section section_title section_content)"
  using binary64_29_lt_30
  by (auto simp: should_skip_section_def ratio_3_10 ratio_29_100)

theorem alpha_ratio_boundary_witness:
  "\<not> should_skip_section ''Engine'' (replicate 60 CHR ''a'' @ replicate 140 CHR ''1'')
   \<and> should_skip_section ''Engine'' (replicate 58 CHR ''a'' @ replicate 142 CHR ''1'')"
proof -
  let ?a = "replicate 60 CHR ''a'' @ replicate 140 CHR ''1''"
  let ?b = "replicate 58 CHR ''a'' @ replicate 142 CHR ''1''"
  have a: "?a \<noteq> [] \<and> 10 * alpha_count ?a = 3 * length ?a"
    by code_simp
  have a': "\<not> (matches IGNORECASE SKIP_PATTERNS ''Engine'' \<or> length (strip ?a) < 200)"
    by code_simp
  have b: "?b \<noteq> [] \<and> 100 * alpha_count ?b = 29 * length ?b"
    by code_simp
  from alpha_ratio_boundary[of ?a "''Engine''"] a a'
  have 1: "\<not> should_skip_section ''Engine'' ?a" by blast
  from alpha_ratio_boundary[of ?b "''Engine''"] b
  have 2: "should_skip_section ''Engine'' ?b" by blast
  from 1 2 show ?thesis by simp
qed

section \<open>Parsing the optional arguments\<close>

lemma parse_overrides_single: "parse_overrides [a] st = Inr st"
  by (cases st) simp

lemma parse_overrides_snoc:
  "args = [] \<or> last args \<notin> set recognized_flags
   \<Longrightarrow> parse_overrides (args @ [flag]) st = parse_overrides args st"
proof (induction args st rule: parse_overrides.induct)
  case (1 a v rest veh max_pages)
  have r: "rest = [] \<or> last rest \<notin> set recognized_flags"
    using "1.prems" by (cases "rest = []") auto
  have vr: "last (v # rest) \<notin> set recognized_flags"
    using "1.prems" by auto
  show ?case
    using "1.IH" r vr by (auto split: option.splits)
qed (auto simp: recognized_flags_def)

text \<open>
  C10 (a flag as the last argument, with no value after it), as the code has it. The loop
  stops before the last argument, so the last argument is never read as a flag. When it is
  the only optional argument, no error is raised and the vehicle is that of the file name,
  the page limit 0. After other arguments, of which the last is not itself a recognized
  flag, the outcome is the outcome of the command line without the trailing flag: an error
  raised by an earlier argument, or the values the earlier arguments set. (A recognized
  flag just before the last argument takes the last argument as its value.)
\<close>

theorem trailing_flag_ignored:
  "parse_args pdf_path [flag] = Inr (Some (detect_vehicle_from_filename pdf_path), 0)
   \<and> (args \<noteq> [] \<and> last args \<notin> set recognized_flags
        \<longrightarrow> parse_args pdf_path (args @ [flag]) = parse_args pdf_path args)"
  by (auto simp: parse_args_def parse_overrides_single parse_overrides_snoc)

theorem trailing_flag_ignored_witness:
  "parse_args ''toyota-camry-2015.pdf'' [''--year'']
     = Inr (Some \<lparr>veh_make = ''Toyota'', veh_model = ''camry'', veh_year = 2015\<rparr>, 0)
   \<and> parse_args ''toyota-camry-2015.pdf'' [''--max-pages'', ''5'', ''--make'']
     = Inr (Some \<lparr>veh_make = ''Toyota'', veh_model = ''camry'', veh_year = 2015\<rparr>, 5)"
proof -
  have d: "detect_vehicle_from_filename ''toyota-camry-2015.pdf''
      = \<lparr>veh_make = ''Toyota'', veh_model = ''camry'', veh_year = 2015\<rparr>"
    by code_simp
  have a: "[''--max-pages'', ''5''] \<noteq> [] \<and> last [''--max-pages'', ''5''] \<notin> set recognized_flags"
    by code_simp
  have p: "parse_args ''toyota-camry-2015.pdf'' [''--max-pages'', ''5'']
      = Inr (Some \<lparr>veh_make = ''Toyota'', veh_model = ''camry'', veh_year = 2015\<rparr>, 5)"
    by code_simp
  from trailing_flag_ignored[of "''toyota-camry-2015.pdf''" "''--year''" "[''--max-pages'', ''5'']"]
    trailing_flag_ignored[of "''toyota-camry-2015.pdf''" "''--make''" "[''--max-pages'', ''5'']"]
    a d p
  show ?thesis by simp
qed

text \<open>The claim fails as stated: with \<^verbatim>\<open>--make Ford --make\<close> the make is not the one of the
  file name, and with \<^verbatim>\<open>--year --year\<close> the trailing flag is taken as the value of the first
  and \<^verbatim>\<open>int\<close> raises.\<close>

theorem trailing_flag_ignored_counterexample:
  "last [''--make'', ''Ford'', ''--make''] \<in> set recognized_flags
   \<and> detect_vehicle_from_filename ''toyota-camry-2015.pdf''
       = \<lparr>veh_make = ''Toyota'', veh_model = ''camry'', veh_year = 2015\<rparr>
   \<and> parse_args ''toyota-camry-2015.pdf'' [''--make'', ''Ford'', ''--make'']
       = Inr (Some \<lparr>veh_make = ''Ford'', veh_model = ''camry'', veh_year = 2015\<rparr>, 0)
   \<and> last [''--year'', ''--year''] \<in> set recognized_flags
   \<and> parse_args ''toyota-camry-2015.pdf'' [''--year'', ''--year''] = Inl ValueError"
  by code_simp

section \<open>The entity bundle\<close>

text \<open>
  C9 (connectors: cap, then deduplicate). The connector category holds exactly the
  distinct strings among the first 20 raw matches of the connector pattern, each once
  (so at most 20 strings, and a connector first met after the 20th match is absent).
  Every other category holds the distinct strings among all the matches of its pattern,
  each once.
\<close>

theorem connector_cap_then_dedup:
  "set (ner_get (regex_ner text) ''connectors'') = set (take 20 (findall no_flags RE_CONNECTOR text))
   \<and> distinct (ner_get (regex_ner text) ''connectors'')
   \<and> length (ner_get (regex_ner text) ''connectors'') \<le> 20
   \<and> set (ner_get (regex_ner text) ''part_numbers'') = set (findall no_flags RE_PART_NUMBER text)
   \<and> distinct (ner_get (regex_ner text) ''part_numbers'')
   \<and> set (ner_get (regex_ner text) ''voltages'') = set (findall no_flags RE_VOLTAGE text)
   \<and> distinct (ner_get (regex_ner text) ''voltages'')
   \<and> set (ner_get (regex_ner text) ''amperages'') = set (findall no_flags RE_AMPERAGE text)
   \<and> distinct (ner_get (regex_ner text) ''amperages'')
   \<and> set (ner_get (regex_ner text) ''resistances'') = set (findall no_flags RE_RESISTANCE text)
   \<and> distinct (ner_get (regex_ner text) ''resistances'')
   \<and> set (ner_get (regex_ner text) ''torques'') = set (findall no_flags RE_TORQUE text)
   \<and> distinct (ner_get (regex_ner text) ''torques'')
   \<and> set (ner_get (regex_ner text) ''wire_colors'') = set (findall IGNORECASE RE_WIRE_COLORS text)
   \<and> distinct (ner_get (regex_ner text) ''wire_colors'')
   \<and> set (ner_get (regex_ner text) ''fluids'') = set (findall IGNORECASE RE_FLUID text)
   \<and> distinct (ner_get (regex_ner text) ''fluids'')
   \<and> set (ner_get (regex_ner text) ''component_types'')
       = set (findall IGNORECASE RE_COMPONENT_TYPES text)
   \<and> distinct (ner_get (regex_ner text) ''component_types'')
   \<and> map fst (regex_ner text)
       = [''part_numbers'', ''voltages'', ''amperages'', ''resistances'', ''torques'',
          ''wire_colors'', ''fluids'', ''component_types'', ''connectors'']"
proof -
  have "length (remdups (take 20 (findall no_flags RE_CONNECTOR text))) \<le> 20"
    using length_remdups_leq[of "take 20 (findall no_flags RE_CONNECTOR text)"] by simp
  then show ?thesis
    by (simp add: regex_ner_def ner_get_def list_set_def)
qed

text \<open>In the text below the connector pattern matches \<^verbatim>\<open>A1\<close> twenty times and then \<^verbatim>\<open>B2\<close>,
  and the voltage pattern matches \<^verbatim>\<open>5V\<close>, \<^verbatim>\<open>6V\<close> and \<^verbatim>\<open>5V\<close> again: the bundle has the one
  connector \<^verbatim>\<open>A1\<close> and the two voltages, each once.\<close>

theorem connector_cap_then_dedup_witness:
  "findall no_flags RE_CONNECTOR ''A1 A1 A1 A1 A1 A1 A1 A1 A1 A1 A1 A1 A1 A1 A1 A1 A1 A1 A1 A1 B2 5V 6V 5V''
     = replicate 20 ''A1'' @ [''B2'']
   \<and> findall no_flags RE_VOLTAGE ''A1 A1 A1 A1 A1 A1 A1 A1 A1 A1 A1 A1 A1 A1 A1 A1 A1 A1 A1 A1 B2 5V 6V 5V''
     = [''5V'', ''6V'', ''5V'']
   \<and> set (ner_get (regex_ner ''A1 A1 A1 A1 A1 A1 A1 A1 A1 A1 A1 A1 A1 A1 A1 A1 A1 A1 A1 A1 B2 5V 6V 5V'') ''connectors'')
     = {''A1''}
   \<and> length (ner_get (regex_ner ''A1 A1 A1 A1 A1 A1 A1 A1 A1 A1 A1 A1 A1 A1 A1 A1 A1 A1 A1 A1 B2 5V 6V 5V'') ''connectors'')
     = 1
   \<and> set (ner_get (regex_ner ''A1 A1 A1 A1 A1 A1 A1 A1 A1 A1 A1 A1 A1 A1 A1 A1 A1 A1 A1 A1 B2 5V 6V 5V'') ''voltages'')
     = {''5V'', ''6V''}
   \<and> length (ner_get (regex_ner ''A1 A1 A1 A1 A1 A1 A1 A1 A1 A1 A1 A1 A1 A1 A1 A1 A1 A1 A1 A1 B2 5V 6V 5V'') ''voltages'')
     = 2"
proof -
  let ?t = "''A1 A1 A1 A1 A1 A1 A1 A1 A1 A1 A1 A1 A1 A1 A1 A1 A1 A1 A1 A1 B2 5V 6V 5V''"
  have a: "findall no_flags RE_CONNECTOR ?t = replicate 20 ''A1'' @ [''B2'']"
    by code_simp
  have b: "findall no_flags RE_VOLTAGE ?t = [''5V'', ''6V'', ''5V'']"
    by code_simp
  from connector_cap_then_dedup[of ?t]
  have c0: "set (ner_get (regex_ner ?t) ''connectors'') = set (take 20 (findall no_flags RE_CONNECTOR ?t))"
    and c2: "distinct (ner_get (regex_ner ?t) ''connectors'')"
    and v0: "set (ner_get (regex_ner ?t) ''voltages'') = set (findall no_flags RE_VOLTAGE ?t)"
    and v2: "distinct (ner_get (regex_ner ?t) ''voltages'')"
    by blast+
  have c1: "set (ner_get (regex_ner ?t) ''connectors'') = {''A1''}"
    unfolding c0 a by simp
  have v1: "set (ner_get (regex_ner ?t) ''voltages'') = {''5V'', ''6V''}"
    unfolding v0 b by auto
  note c = c1 c2 and v = v1 v2
  have "length (ner_get (regex_ner ?t) ''connectors'') = card {''A1''}"
    using distinct_card[OF c(2)] c(1) by simp
  moreover have "length (ner_get (regex_ner ?t) ''voltages'') = card {''5V'', ''6V''}"
    using distinct_card[OF v(2)] v(1) by simp
  ultimately show ?thesis using a b c(1) v(1) by simp
qed


section \<open>The run without the language model\<close>

lemma strings_of_JStr: "strings_of (map JStr xs) = Inr xs"
  by (induction xs) auto

lemma ner_item_part_numbers:
  "ner_item (regex_ner c) ''part_numbers'' = Inr (list_set (findall no_flags RE_PART_NUMBER c))"
  by (simp add: ner_item_def regex_ner_def)

lemma build_output_None:
  "\<exists>r. build_output W sec idx veh (regex_ner c) None p = Inr r
       \<and> regex_only r \<and> source_id r = make_source_id veh idx"
  by (simp add: build_output_def comp_names_def regex_only_def take_map strings_of_JStr Let_def
      ner_item_part_numbers)

lemma process_sections_no_client:
  "\<not> have_client W \<Longrightarrow> requests out = [] \<Longrightarrow> list_all (\<lambda>pr. regex_only (snd pr)) (written out)
   \<Longrightarrow> requests (process_sections W veh p d secs out) = []
       \<and> list_all (\<lambda>pr. regex_only (snd pr)) (written (process_sections W veh p d secs out))"
proof (induction secs arbitrary: out)
  case Nil
  then show ?case by simp
next
  case (Cons a secs)
  obtain idx sec where a: "a = (idx, sec)" by (cases a)
  obtain r where r: "build_output W sec idx veh (regex_ner (content sec)) None p = Inr r"
    "regex_only r"
    using build_output_None by blast
  show ?case
  proof (cases "should_skip_section (title sec) (content sec)")
    case True
    then show ?thesis using Cons a by simp
  next
    case False
    let ?out = "out\<lparr>written := written out
      @ [(path_join d (output_filename W veh idx (content sec)), r)]\<rparr>"
    have "requests ?out = []" "list_all (\<lambda>pr. regex_only (snd pr)) (written ?out)"
      using Cons.prems r(2) by simp_all
    from Cons.IH[OF Cons.prems(1) this]
    show ?thesis using False a r(1) Cons.prems(1) by (simp add: Let_def)
  qed
qed

lemma process_pdf_no_client:
  assumes "\<not> credential W"
  shows "requests (process_pdf W p d v m) = []
       \<and> list_all (\<lambda>pr. regex_only (snd pr)) (written (process_pdf W p d v m))"
proof -
  have nc: "\<not> have_client W" using assms by (simp add: have_client_def)
  have e: "requests no_outcome = []" "list_all (\<lambda>pr. regex_only (snd pr)) (written no_outcome)"
    by (simp_all add: no_outcome_def)
  show ?thesis
    using process_sections_no_client[OF nc e]
    by (auto simp: process_pdf_def Let_def no_outcome_def split: option.splits)
qed

text \<open>
  C4 (regex-only fallback): in a run for which no API key is configured (the variable is
  unset or empty), no request is sent to the language model, and every record written has
  confidence 0.5, document type \<^verbatim>\<open>"overview"\<close> and cost 0.0.
\<close>

theorem regex_only_fallback:
  "\<not> credential W \<Longrightarrow>
     requests (main W argv) = []
     \<and> (\<forall>pr \<in> set (written (main W argv)).
          confidence (out_metadata (snd pr)) = JFloat (Finite (1 / 2))
          \<and> doc_type (out_metadata (snd pr)) = JStr ''overview''
          \<and> claude_cost_usd (out_metadata (snd pr)) = JFloat (Finite 0))"
  using process_pdf_no_client[of W]
  by (auto simp: main_def no_outcome_def list_all_iff regex_only_def split: sum.splits prod.splits)


text \<open>The example run: one section, not skipped, one file.\<close>

lemma process_sections_single:
  assumes "\<not> have_client W" "\<not> should_skip_section (title sec) (content sec)"
  shows "map fst (written (process_sections W veh p d [(idx, sec)] no_outcome))
         = [path_join d (output_filename W veh idx (content sec))]"
proof -
  obtain r where r: "build_output W sec idx veh (regex_ner (content sec)) None p = Inr r"
    using build_output_None by blast
  show ?thesis using assms r by (simp add: Let_def no_outcome_def)
qed

lemma example_sections: "extract_sections [example_page] 0 = [example_section]"
  by code_simp

lemma example_not_skipped:
  "\<not> should_skip_section (title example_section) (content example_section)"
  by code_simp

lemma example_detect:
  "detect_vehicle_from_filename ''/data/toyota-camry-2015.pdf'' = example_vehicle"
  by code_simp

lemma example_filename:
  "path_join ''out'' (output_filename example_world example_vehicle 0 (content example_section))
   = ''out/manual-toyota-camry-2015-s000-01234567.json''"
  by code_simp

lemma example_no_credential: "\<not> credential example_world"
  by (simp add: credential_def example_world_def)

lemma example_main:
  "main example_world example_argv
   = process_sections example_world example_vehicle ''/data/toyota-camry-2015.pdf'' ''out''
       [(0, example_section)] no_outcome"
proof -
  have w: "path_exists example_world ''toyota-camry-2015.pdf''"
    "abspath example_world ''toyota-camry-2015.pdf'' = ''/data/toyota-camry-2015.pdf''"
    "pdf_open example_world ''/data/toyota-camry-2015.pdf'' = Some [example_page]"
    by (simp_all add: example_world_def)
  show ?thesis
    by (simp add: main_def example_argv_def parse_args_def process_pdf_def w
        example_sections example_detect enumerate_eq_zip del: process_sections.simps)
qed

theorem regex_only_fallback_witness:
  "requests (main example_world example_argv) = []
   \<and> map fst (written (main example_world example_argv))
       = [''out/manual-toyota-camry-2015-s000-01234567.json'']
   \<and> list_all (\<lambda>pr. confidence (out_metadata (snd pr)) = JFloat (Finite (1 / 2))
          \<and> doc_type (out_metadata (snd pr)) = JStr ''overview''
          \<and> claude_cost_usd (out_metadata (snd pr)) = JFloat (Finite 0))
        (written (main example_world example_argv))"
proof -
  have nc: "\<not> have_client example_world"
    using example_no_credential by (simp add: have_client_def)
  have w: "map fst (written (main example_world example_argv))
       = [''out/manual-toyota-camry-2015-s000-01234567.json'']"
    unfolding example_main
    using process_sections_single[OF nc example_not_skipped, of example_vehicle
        "''/data/toyota-camry-2015.pdf''" "''out''" 0]
    by (simp add: example_filename)
  from regex_only_fallback[OF example_no_credential, of example_argv] w
  show ?thesis by (simp add: list_all_iff)
qed

section \<open>The identity of the files\<close>

lemma output_filename_md5:
  "md5_hex W1 = md5_hex W2 \<Longrightarrow> output_filename W1 veh idx c = output_filename W2 veh idx c"
  by (simp add: output_filename_def content_hash_def)

lemma process_sections_ids:
  assumes "\<not> have_client W1" "\<not> have_client W2" "md5_hex W1 = md5_hex W2"
  shows "ids out1 = ids out2
    \<Longrightarrow> ids (process_sections W1 veh p d secs out1) = ids (process_sections W2 veh p d secs out2)"
proof (induction secs arbitrary: out1 out2)
  case Nil
  then show ?case by simp
next
  case (Cons a secs)
  obtain idx sec where a: "a = (idx, sec)" by (cases a)
  obtain r1 where r1: "build_output W1 sec idx veh (regex_ner (content sec)) None p = Inr r1"
    "source_id r1 = make_source_id veh idx"
    using build_output_None by blast
  obtain r2 where r2: "build_output W2 sec idx veh (regex_ner (content sec)) None p = Inr r2"
    "source_id r2 = make_source_id veh idx"
    using build_output_None by blast
  show ?case
  proof (cases "should_skip_section (title sec) (content sec)")
    case True
    then show ?thesis using Cons a by simp
  next
    case False
    let ?o1 = "out1\<lparr>written := written out1
      @ [(path_join d (output_filename W1 veh idx (content sec)), r1)]\<rparr>"
    let ?o2 = "out2\<lparr>written := written out2
      @ [(path_join d (output_filename W2 veh idx (content sec)), r2)]\<rparr>"
    have "ids ?o1 = ids ?o2"
      using Cons.prems r1(2) r2(2) output_filename_md5[OF assms(3)]
      by (simp add: ids_def)
    from Cons.IH[OF this]
    show ?thesis using False a r1(1) r2(1) assms(1,2) by (simp add: Let_def)
  qed
qed

text \<open>
  C8 (identifier determinism). Two runs, in worlds that may differ in the clock, in the
  answers of the language model and in everything else but the document, the working
  directory and the digest function, both without an API key: on the same document with
  the same vehicle they write the same files, under the same paths (which carry the
  content hash) and with the same \<^verbatim>\<open>source_id\<close>, in the same order. The content hash
  has at most eight characters, the first eight of the digest, and depends on the first
  500 characters of the section's text only.
\<close>

theorem identifier_determinism:
  "\<not> credential W1 \<Longrightarrow> \<not> credential W2 \<Longrightarrow> md5_hex W1 = md5_hex W2
   \<Longrightarrow> abspath W1 p = abspath W2 p \<Longrightarrow> pdf_open W1 (abspath W1 p) = pdf_open W2 (abspath W2 p)
   \<Longrightarrow> ids (process_pdf W1 p d v m) = ids (process_pdf W2 p d v m)
       \<and> length (content_hash W1 c) \<le> 8
       \<and> (take 500 c = take 500 c' \<longrightarrow> content_hash W1 c = content_hash W1 c')"
proof -
  assume c: "\<not> credential W1" "\<not> credential W2" and m: "md5_hex W1 = md5_hex W2"
    and a: "abspath W1 p = abspath W2 p"
    and o: "pdf_open W1 (abspath W1 p) = pdf_open W2 (abspath W2 p)"
  have nc: "\<not> have_client W1" "\<not> have_client W2"
    using c by (simp_all add: have_client_def)
  have "ids (process_pdf W1 p d v m) = ids (process_pdf W2 p d v m)"
    using process_sections_ids[OF nc m, of no_outcome no_outcome] a o
    by (auto simp: process_pdf_def Let_def ids_def no_outcome_def split: option.splits)
  then show ?thesis by (simp add: content_hash_def)
qed

lemma process_sections_single_ids:
  assumes "\<not> have_client W" "\<not> should_skip_section (title sec) (content sec)"
  shows "ids (process_sections W veh p d [(idx, sec)] no_outcome)
         = [(path_join d (output_filename W veh idx (content sec)), make_source_id veh idx)]"
proof -
  obtain r where r: "build_output W sec idx veh (regex_ner (content sec)) None p = Inr r"
    "source_id r = make_source_id veh idx"
    using build_output_None by blast
  show ?thesis using assms r by (simp add: Let_def no_outcome_def ids_def)
qed

lemma example_process_pdf:
  "process_pdf example_world ''toyota-camry-2015.pdf'' ''out'' None 0
   = process_sections example_world example_vehicle ''/data/toyota-camry-2015.pdf'' ''out''
       [(0, example_section)] no_outcome"
proof -
  have w: "abspath example_world ''toyota-camry-2015.pdf'' = ''/data/toyota-camry-2015.pdf''"
    "pdf_open example_world ''/data/toyota-camry-2015.pdf'' = Some [example_page]"
    by (simp_all add: example_world_def)
  show ?thesis
    by (simp add: process_pdf_def w example_sections example_detect enumerate_eq_zip
        del: process_sections.simps)
qed

lemma example_source_id:
  "make_source_id example_vehicle 0 = ''manual:toyota-camry-2015:section-0''"
  by code_simp

theorem identifier_determinism_witness:
  "ids (process_pdf (example_world\<lparr>now := ''2031-07-01T09:30:00Z''\<rparr>)
          ''toyota-camry-2015.pdf'' ''out'' None 0)
   = [(''out/manual-toyota-camry-2015-s000-01234567.json'', ''manual:toyota-camry-2015:section-0'')]"
proof -
  let ?W = "example_world\<lparr>now := ''2031-07-01T09:30:00Z''\<rparr>"
  have c: "\<not> credential ?W" "md5_hex example_world = md5_hex ?W"
    "abspath example_world ''toyota-camry-2015.pdf'' = abspath ?W ''toyota-camry-2015.pdf''"
    "pdf_open example_world (abspath example_world ''toyota-camry-2015.pdf'')
     = pdf_open ?W (abspath ?W ''toyota-camry-2015.pdf'')"
    using example_no_credential by (simp_all add: credential_def)
  have nc: "\<not> have_client example_world"
    using example_no_credential by (simp add: have_client_def)
  have e: "ids (process_pdf example_world ''toyota-camry-2015.pdf'' ''out'' None 0)
    = [(''out/manual-toyota-camry-2015-s000-01234567.json'', ''manual:toyota-camry-2015:section-0'')]"
    unfolding example_process_pdf
    using process_sections_single_ids[OF nc example_not_skipped, of example_vehicle
        "''/data/toyota-camry-2015.pdf''" "''out''" 0]
    by (simp add: example_filename example_source_id)
  from identifier_determinism[OF example_no_credential c, of "''out''" None 0] e
  show ?thesis by simp
qed


section \<open>A document without sections\<close>

lemma process_pdf_no_sections:
  "pdf_open W (abspath W p) = Some pdf_pages \<Longrightarrow> extract_sections pdf_pages m = []
   \<Longrightarrow> process_pdf W p d v m = no_outcome"
  by (simp add: process_pdf_def)

text \<open>
  C2 (empty segmentation). When no section is extracted, \<^verbatim>\<open>process_pdf\<close> logs an error
  and returns; nothing is written. \<^verbatim>\<open>main\<close> then returns as after a successful run, so
  the exit status of the process is 0, where the claim has 1. Evaluated for a scanned
  manual (one page without text) and for a document with no page.
\<close>

theorem empty_segmentation_exit_status:
  "extract_sections [\<lparr>page_text = None, page_tables = []\<rparr>] 0 = []
   \<and> written (main scan_world example_argv) = []
   \<and> failure (main scan_world example_argv) = None
   \<and> exit_status (main scan_world example_argv) = 0
   \<and> extract_sections [] 0 = []
   \<and> written (main (example_world\<lparr>pdf_open := (\<lambda>p. Some [])\<rparr>) example_argv) = []
   \<and> exit_status (main (example_world\<lparr>pdf_open := (\<lambda>p. Some [])\<rparr>) example_argv) = 0"
proof -
  have s: "extract_sections [\<lparr>page_text = None, page_tables = []\<rparr>] 0 = []"
    "extract_sections [] 0 = []"
    by code_simp+
  have a: "main scan_world example_argv = no_outcome"
    using process_pdf_no_sections[of scan_world "''toyota-camry-2015.pdf''" _ 0 "''out''" None, OF _ s(1)]
    by (simp add: main_def example_argv_def parse_args_def scan_world_def example_world_def)
  have b: "main (example_world\<lparr>pdf_open := (\<lambda>p. Some [])\<rparr>) example_argv = no_outcome"
    using process_pdf_no_sections[of "example_world\<lparr>pdf_open := (\<lambda>p. Some [])\<rparr>"
        "''toyota-camry-2015.pdf''" _ 0 "''out''" None, OF _ s(2)]
    by (simp add: main_def example_argv_def parse_args_def example_world_def)
  show ?thesis using s a b by (simp add: no_outcome_def exit_status_def)
qed

section \<open>Rounding to binary64\<close>

lemma rhe_of_int: "round_half_even (of_int n) = n"
  by (simp add: round_half_even_def)

lemma rhe_near: "\<bar>x - of_int n\<bar> < 1 / 2 \<Longrightarrow> round_half_even x = n"
proof -
  assume a: "\<bar>x - of_int n\<bar> < 1 / 2"
  show ?thesis
  proof (cases "of_int n \<le> x")
    case True
    with a have "\<lfloor>x\<rfloor> = n" by (intro floor_unique) linarith+
    with a True show ?thesis by (simp add: round_half_even_def Let_def)
  next
    case False
    with a have f: "\<lfloor>x\<rfloor> = n - 1" by (intro floor_unique) (simp, linarith+)
    with a False have "1 / 2 < x - of_int \<lfloor>x\<rfloor>" by simp
    with f show ?thesis by (simp add: round_half_even_def Let_def)
  qed
qed

lemma rhe_error: "\<bar>of_int (round_half_even x) - x\<bar> \<le> 1 / 2"
proof -
  have "of_int \<lfloor>x\<rfloor> \<le> x" "x < of_int \<lfloor>x\<rfloor> + 1" by linarith+
  then show ?thesis
    by (auto simp: round_half_even_def Let_def)
qed

lemma ilog2_bounds:
  assumes "0 < x"
  shows "2 powi (ilog2 x) \<le> x \<and> x < 2 powi (ilog2 x + 1)"
proof (cases "1 \<le> x")
  case True
  define m where "m = nat \<lfloor>x\<rfloor>"
  define k where "k = floorlog 2 m"
  have m: "0 < m" using True by (simp add: m_def)
  from floorlog_bounds[OF m, of 2] have b: "2 ^ (k - 1) \<le> m" "m < 2 ^ k"
    by (simp_all add: k_def)
  have k: "0 < k" using b(2) m by (cases k) auto
  have e: "ilog2 x = int k - 1" using True by (simp add: ilog2_def k_def m_def)
  have mx: "rat_of_nat m \<le> x" "x < rat_of_nat m + 1"
    using True by (simp_all add: m_def) linarith+
  have "rat_of_nat (2 ^ (k - 1)) \<le> rat_of_nat m" using b(1) by (simp only: of_nat_le_iff)
  then have "(2::rat) ^ (k - 1) \<le> rat_of_nat m" by simp
  then have "(2::rat) ^ (k - 1) \<le> x" using mx(1) by linarith
  moreover have "(2::rat) powi (int k - 1) = 2 ^ (k - 1)"
    using k by (cases k) simp_all
  ultimately have 1: "2 powi (int k - 1) \<le> x" by simp
  have "m + 1 \<le> 2 ^ k" using b(2) by simp
  then have "rat_of_nat (m + 1) \<le> rat_of_nat (2 ^ k)" by (simp only: of_nat_le_iff)
  then have "rat_of_nat m + 1 \<le> (2::rat) ^ k" by simp
  then have "x < (2::rat) ^ k" using mx(2) by linarith
  then have 2: "x < 2 powi (int k - 1 + 1)"
    by simp
  from 1 2 e show ?thesis by simp
next
  case False
  define c where "c = \<lceil>1 / x\<rceil>"
  define m where "m = nat (c - 1)"
  define k where "k = floorlog 2 m"
  have y: "1 < 1 / x" using False assms by simp
  then have c: "2 \<le> c" unfolding c_def by linarith
  have m: "0 < m" using c by (simp add: m_def)
  from floorlog_bounds[OF m, of 2] have b: "2 ^ (k - 1) \<le> m" "m < 2 ^ k"
    by (simp_all add: k_def)
  have k: "0 < k" using b(2) m by (cases k) auto
  have e: "ilog2 x = - int k" using False by (simp add: ilog2_def k_def m_def c_def)
  have cy: "1 / x \<le> of_int c" "of_int c < 1 / x + 1" unfolding c_def by linarith+
  have mc: "rat_of_nat m = of_int c - 1" using c by (simp add: m_def)
  have "m + 1 \<le> 2 ^ k" using b(2) by simp
  then have "rat_of_nat (m + 1) \<le> rat_of_nat (2 ^ k)" by (simp only: of_nat_le_iff)
  then have "rat_of_nat m + 1 \<le> (2::rat) ^ k" by simp
  then have "1 / x \<le> 2 ^ k" using cy(1) mc by linarith
  then have 1: "2 powi (- int k) \<le> x"
    using assms by (simp add: power_int_minus field_simps)
  have "rat_of_nat (2 ^ (k - 1)) \<le> rat_of_nat m" using b(1) by (simp only: of_nat_le_iff)
  then have "(2::rat) ^ (k - 1) \<le> rat_of_nat m" by simp
  then have "2 ^ (k - 1) < 1 / x" using cy(2) mc by linarith
  then have "x < 1 / 2 ^ (k - 1)" using assms by (simp add: field_simps)
  also have "1 / 2 ^ (k - 1) = (2::rat) powi (- int (k - 1))"
    by (simp add: power_int_minus_divide)
  also have "- int (k - 1) = - int k + 1"
    using k by (simp add: of_nat_diff)
  finally have 2: "x < 2 powi (- int k + 1)" .
  from 1 2 e show ?thesis by simp
qed


lemma powi_mono2: "a \<le> b \<Longrightarrow> (2::rat) powi a \<le> 2 powi b"
  by (rule power_int_increasing) simp_all

lemma binary64_pos:
  assumes "0 < x" "- 1022 \<le> ilog2 x"
  shows "binary64 x = of_int (round_half_even (x / 2 powi (ilog2 x - 52))) * 2 powi (ilog2 x - 52)"
  using assms by (simp add: binary64_def Let_def max_def)

lemma binary64_of_int:
  assumes "0 \<le> n" "n < 2 ^ 53"
  shows "binary64 (of_int n) = of_int n"
proof (cases "n = 0")
  case True
  then show ?thesis by (simp add: binary64_def)
next
  case False
  define x where "x = rat_of_int n"
  define e where "e = ilog2 x"
  have x: "1 \<le> x" "x < 2 ^ 53" using assms False by (simp_all add: x_def)
  then have x0: "0 < x" by simp
  from ilog2_bounds[OF x0] have b: "2 powi e \<le> x" "x < 2 powi (e + 1)"
    by (simp_all add: e_def)
  have e0: "0 \<le> e"
  proof (rule ccontr)
    assume "\<not> 0 \<le> e"
    then have "e + 1 \<le> 0" by simp
    from powi_mono2[OF this] b(2) x(1) show False by simp
  qed
  have e52: "e \<le> 52"
  proof (rule ccontr)
    assume "\<not> e \<le> 52"
    then have "53 \<le> e" by simp
    from powi_mono2[OF this] b(1) x(2) show False by simp
  qed
  define j where "j = nat (52 - e)"
  have u: "(2::rat) powi (e - 52) = 1 / 2 ^ j"
  proof -
    have "e - 52 = - int j" using e52 by (simp add: j_def)
    then show ?thesis by (simp add: power_int_minus_divide)
  qed
  have q: "x / 2 powi (e - 52) = of_int (n * 2 ^ j)"
    by (simp add: u x_def)
  have r: "round_half_even (x / 2 powi (e - 52)) = n * 2 ^ j"
    by (simp only: q rhe_of_int)
  have "binary64 x = rat_of_int (round_half_even (x / 2 powi (e - 52))) * 2 powi (e - 52)"
    unfolding e_def using x0 e0 by (intro binary64_pos) (simp_all add: e_def)
  also have "\<dots> = rat_of_int (n * 2 ^ j) * 2 powi (e - 52)"
    by (simp only: r)
  also have "\<dots> = rat_of_int (n * 2 ^ j) * (1 / 2 ^ j)"
    by (simp only: u)
  also have "\<dots> = x" by (simp add: x_def)
  finally show ?thesis by (simp add: x_def)
qed

lemma binary64_error:
  assumes "0 < x" "- 1022 \<le> ilog2 x"
  shows "\<bar>binary64 x - x\<bar> \<le> x / 2 ^ 53"
proof -
  define e where "e = ilog2 x"
  define u where "u = (2::rat) powi (e - 52)"
  have u0: "0 < u" by (simp add: u_def)
  have b: "2 powi e \<le> x" using ilog2_bounds[OF assms(1)] by (simp add: e_def)
  have "binary64 x - x = (of_int (round_half_even (x / u)) - x / u) * u"
    using binary64_pos[OF assms] u0 by (simp add: e_def u_def algebra_simps)
  then have "\<bar>binary64 x - x\<bar> = \<bar>of_int (round_half_even (x / u)) - x / u\<bar> * u"
    using u0 by (simp add: abs_mult)
  also have "\<dots> \<le> (1 / 2) * u"
    using rhe_error[of "x / u"] u0 by (intro mult_right_mono) simp_all
  also have "(1 / 2) * u = 2 powi e / 2 ^ 53"
  proof -
    have "(2::rat) powi (e - 52) = 2 powi e / 2 powi 52"
      by (rule power_int_diff) simp
    then show ?thesis by (simp add: u_def)
  qed
  also have "\<dots> \<le> x / 2 ^ 53" using b by (simp add: divide_right_mono)
  finally show ?thesis .
qed



section \<open>The cost of a request\<close>

lemma to_float_finite: "\<bar>binary64 x\<bar> < 2 ^ 1024 \<Longrightarrow> to_float x = Finite (binary64 x)"
  by (simp add: to_float_def Let_def abs_less_iff)

lemma to_float_of_int:
  assumes "0 \<le> n" "n < 2 ^ 53"
  shows "to_float (of_int n) = Finite (of_int n)"
proof -
  have b: "binary64 (rat_of_int n) = rat_of_int n"
    by (rule binary64_of_int[OF assms])
  have "rat_of_int n < 2 ^ 53"
    using assms(2) by (metis of_int_less_iff of_int_numeral of_int_power)
  also have "(2::rat) ^ 53 \<le> 2 ^ 1024" by (rule power_increasing) simp_all
  finally have "\<bar>rat_of_int n\<bar> < 2 ^ 1024" using assms(1) by simp
  then show ?thesis using to_float_finite[of "rat_of_int n"] b by simp
qed

lemma fl_of_int_exact:
  assumes "0 \<le> n" "n < 2 ^ 53"
  shows "fl_of_int n = Inr (Finite (of_int n))"
  by (simp add: fl_of_int_def to_float_of_int[OF assms])

lemma cost_sum_exact:
  assumes "0 \<le> n_in" "0 \<le> n_out" "3 * n_in + 15 * n_out < 2 ^ 52"
  shows "fl_of_int n_in = Inr (Finite (of_int n_in))"
    and "fl_of_int n_out = Inr (Finite (of_int n_out))"
    and "fl_add (fl_mul (Finite (of_int n_in)) (Finite 3)) (fl_mul (Finite (of_int n_out)) (Finite 15))
         = Finite (of_int (n_in * 3 + n_out * 15))"
proof -
  show "fl_of_int n_in = Inr (Finite (of_int n_in))"
    using assms by (intro fl_of_int_exact) simp_all
  show "fl_of_int n_out = Inr (Finite (of_int n_out))"
    using assms by (intro fl_of_int_exact) simp_all
  have a2: "to_float (rat_of_int n_in * 3) = Finite (rat_of_int n_in * 3)"
    using to_float_of_int[of "n_in * 3"] assms by simp
  have a4: "to_float (rat_of_int n_out * 15) = Finite (rat_of_int n_out * 15)"
    using to_float_of_int[of "n_out * 15"] assms by simp
  have a5: "to_float (rat_of_int n_in * 3 + rat_of_int n_out * 15)
      = Finite (rat_of_int n_in * 3 + rat_of_int n_out * 15)"
    using to_float_of_int[of "n_in * 3 + n_out * 15"] assms by simp
  show "fl_add (fl_mul (Finite (of_int n_in)) (Finite 3)) (fl_mul (Finite (of_int n_out)) (Finite 15))
         = Finite (of_int (n_in * 3 + n_out * 15))"
    by (simp add: a2 a4 a5)
qed

lemma round_six_exact:
  "rat_of_int (round_half_even (rat_of_int K / 1000000 * 1000000)) / 1000000
   = rat_of_int K / 1000000"
proof -
  have "rat_of_int K / 1000000 * 1000000 = rat_of_int K" by simp
  then show ?thesis by (simp only: rhe_of_int)
qed

lemma round6_fixed:
  assumes "0 \<le> N" "N < 2 ^ 52"
  shows "round6 (binary64 (of_int N / 1000000)) = binary64 (of_int N / 1000000)"
proof (cases "N = 0")
  case True
  then show ?thesis by (simp add: round6_def binary64_def round_half_even_def)
next
  case False
  define q where "q = rat_of_int N / 1000000"
  define x where "x = binary64 q"
  have N1: "1 \<le> rat_of_int N" using assms False by simp
  have q0: "0 < q" using N1 by (simp add: q_def)
  have ql: "2 powi (- 20) \<le> q"
  proof -
    have "(2::rat) powi (- 20) \<le> 1 / 1000000" by (simp add: power_int_minus_divide)
    also have "\<dots> \<le> q" using N1 by (simp add: q_def)
    finally show ?thesis .
  qed
  have e: "- 1022 \<le> ilog2 q"
  proof (rule ccontr)
    assume "\<not> - 1022 \<le> ilog2 q"
    then have "ilog2 q + 1 \<le> - 20" by simp
    from powi_mono2[OF this] ilog2_bounds[OF q0] ql show False by simp
  qed
  have "\<bar>x - q\<bar> \<le> q / 2 ^ 53"
    unfolding x_def by (rule binary64_error[OF q0 e])
  then have "\<bar>x - q\<bar> * 1000000 \<le> q / 2 ^ 53 * 1000000"
    by (intro mult_right_mono) simp_all
  moreover have "\<bar>x - q\<bar> * 1000000 = \<bar>x * 1000000 - of_int N\<bar>"
  proof -
    have "x * 1000000 - of_int N = (x - q) * 1000000" by (simp add: q_def algebra_simps)
    then show ?thesis by (simp only: abs_mult abs_numeral)
  qed
  moreover have "q / 2 ^ 53 * 1000000 = of_int N / 2 ^ 53" by (simp add: q_def)
  moreover have "rat_of_int N / 2 ^ 53 < 1 / 2"
  proof -
    have "rat_of_int N < 2 ^ 52" using assms(2) by (metis of_int_less_iff of_int_numeral of_int_power)
    then show ?thesis by simp
  qed
  ultimately have "\<bar>x * 1000000 - of_int N\<bar> < 1 / 2" by linarith
  then have "round_half_even (x * 1000000) = N" by (rule rhe_near)
  then show ?thesis by (simp add: round6_def x_def q_def)
qed

lemma map_of_dict_set: "map_of (dict_set d k v) = (map_of d)(k \<mapsto> v)"
  by (induction d k v rule: dict_set.induct) auto

lemma quotient_bounds:
  assumes "0 \<le> N" "N < 2 ^ 52"
  shows "\<bar>binary64 (of_int N / 1000000)\<bar> < 2 ^ 1024"
proof (cases "N = 0")
  case True
  then show ?thesis by (simp add: binary64_def)
next
  case False
  define q where "q = rat_of_int N / 1000000"
  define x where "x = binary64 q"
  have N1: "1 \<le> rat_of_int N" using assms False by simp
  have N2: "rat_of_int N < 2 ^ 52"
    using assms(2) by (metis of_int_less_iff of_int_numeral of_int_power)
  have q0: "0 < q" using N1 by (simp add: q_def)
  have ql: "2 powi (- 20) \<le> q"
  proof -
    have "(2::rat) powi (- 20) \<le> 1 / 1000000" by (simp add: power_int_minus_divide)
    also have "\<dots> \<le> q" using N1 by (simp add: q_def)
    finally show ?thesis .
  qed
  have e: "- 1022 \<le> ilog2 q"
  proof (rule ccontr)
    assume "\<not> - 1022 \<le> ilog2 q"
    then have "ilog2 q + 1 \<le> - 20" by simp
    from powi_mono2[OF this] ilog2_bounds[OF q0] ql show False by simp
  qed
  have d: "\<bar>x - q\<bar> \<le> q / 2 ^ 53"
    unfolding x_def by (rule binary64_error[OF q0 e])
  have "q / 2 ^ 53 \<le> q" using q0 by (simp add: divide_le_eq)
  with d have "\<bar>x\<bar> \<le> 2 * q" using q0 by linarith
  moreover have "q < 2 ^ 52" using N2 N1 by (simp add: q_def)
  moreover have "(2::rat) * 2 ^ 52 \<le> 2 ^ 1024"
  proof -
    have "(2::rat) * 2 ^ 52 = 2 ^ 53" by simp
    also have "\<dots> \<le> 2 ^ 1024" by (rule power_increasing) simp_all
    finally show ?thesis .
  qed
  ultimately show ?thesis unfolding x_def q_def by linarith
qed

lemma cost_usd_exact:
  assumes "0 \<le> n_in" "0 \<le> n_out" "3 * n_in + 15 * n_out < 2 ^ 52"
  shows "cost_usd n_in n_out = Inr (Finite (binary64 (of_int (n_in * 3 + n_out * 15) / 1000000)))"
proof -
  have N: "0 \<le> n_in * 3 + n_out * 15" "n_in * 3 + n_out * 15 < 2 ^ 52"
    using assms by simp_all
  have m: "fl_of_int 1000000 = Inr (Finite 1000000)"
    using fl_of_int_exact[of 1000000] by simp
  have q: "to_float (rat_of_int (n_in * 3 + n_out * 15) / 1000000)
      = Finite (binary64 (rat_of_int (n_in * 3 + n_out * 15) / 1000000))"
    by (rule to_float_finite[OF quotient_bounds[OF N]])
  have d: "fl_div (Finite (rat_of_int (n_in * 3 + n_out * 15))) (Finite 1000000)
      = Inr (Finite (binary64 (rat_of_int (n_in * 3 + n_out * 15) / 1000000)))"
    using q by simp
  show ?thesis
    unfolding cost_usd_def cost_sum_exact[OF assms] m sum.case d py_round6_def pyfloat.case
      round6_fixed[OF N] ..
qed

text \<open>
  C5 (cost formula). For token counts \<open>i\<close> and \<open>o\<close> (not negative, and with
  \<open>3 i + 15 o\<close> below \<open>2 ^ 52\<close>, which holds for every count a model reports), no
  operation raises or overflows, the float operations of the source are exact up to the
  division, and \<^verbatim>\<open>round(.., 6)\<close> leaves the quotient as it is: the cost is the float
  nearest to \<open>(3 i + 15 o) / 1000000\<close>. That number has at most six decimal places, so
  rounding it to six places does not change it. When the request could be built and was
  answered with these counts, every result of \<^verbatim>\<open>claude_extract\<close> holds this cost under
  \<^verbatim>\<open>_cost_usd\<close> and the two counts beside it, and there is a result whenever the reply is
  a JSON object. For 1000 and 500 tokens the cost is the float \<^verbatim>\<open>0.0105\<close>.
\<close>

theorem cost_formula:
  "0 \<le> n_in \<Longrightarrow> 0 \<le> n_out \<Longrightarrow> 3 * n_in + 15 * n_out < 2 ^ 52 \<Longrightarrow>
     cost_usd n_in n_out = Inr (Finite (binary64 (of_int (n_in * 3 + n_out * 15) / 1000000)))
     \<and> rat_of_int (round_half_even (of_int (n_in * 3 + n_out * 15) / 1000000 * 1000000)) / 1000000
         = of_int (n_in * 3 + n_out * 15) / 1000000
     \<and> (make_request t c veh ner = Inr request
         \<and> llm W n request = Some \<lparr>reply = s, input_tokens = n_in, output_tokens = n_out\<rparr>
         \<and> claude_extract W n t c veh ner = Some result
         \<longrightarrow> map_of result ''_cost_usd''
               = Some (JFloat (Finite (binary64 (of_int (n_in * 3 + n_out * 15) / 1000000))))
             \<and> map_of result ''_input_tokens'' = Some (JInt n_in)
             \<and> map_of result ''_output_tokens'' = Some (JInt n_out))
     \<and> (make_request t c veh ner = Inr request
         \<and> llm W n request = Some \<lparr>reply = s, input_tokens = n_in, output_tokens = n_out\<rparr>
         \<and> json_loads W (strip_fences (strip s)) = Some (JObj d)
         \<longrightarrow> (\<exists>result. claude_extract W n t c veh ner = Some result))"
proof -
  assume a: "0 \<le> n_in" "0 \<le> n_out" "3 * n_in + 15 * n_out < 2 ^ 52"
  have 1: "cost_usd n_in n_out = Inr (Finite (binary64 (of_int (n_in * 3 + n_out * 15) / 1000000)))"
    by (rule cost_usd_exact[OF a])
  have 2: "rat_of_int (round_half_even (of_int (n_in * 3 + n_out * 15) / 1000000 * 1000000)) / 1000000
         = of_int (n_in * 3 + n_out * 15) / 1000000"
    by (rule round_six_exact)
  have 3: "map_of result ''_cost_usd''
               = Some (JFloat (Finite (binary64 (of_int (n_in * 3 + n_out * 15) / 1000000))))
             \<and> map_of result ''_input_tokens'' = Some (JInt n_in)
             \<and> map_of result ''_output_tokens'' = Some (JInt n_out)"
    if "make_request t c veh ner = Inr request"
       "llm W n request = Some \<lparr>reply = s, input_tokens = n_in, output_tokens = n_out\<rparr>"
       "claude_extract W n t c veh ner = Some result"
    using that 1
    by (auto simp: claude_extract_def map_of_dict_set split: option.splits json.splits)
  have 4: "\<exists>result. claude_extract W n t c veh ner = Some result"
    if "make_request t c veh ner = Inr request"
       "llm W n request = Some \<lparr>reply = s, input_tokens = n_in, output_tokens = n_out\<rparr>"
       "json_loads W (strip_fences (strip s)) = Some (JObj d)"
    using that 1 by (simp add: claude_extract_def)
  from 1 2 3 4 show ?thesis by blast
qed

text \<open>With the entities of the text \<^verbatim>\<open>relay 12V\<close> and 1000 and 500 tokens.\<close>

theorem cost_formula_witness:
  "cost_usd 1000 500 = Inr (Finite (binary64 (105 / 10000)))
   \<and> binary64 (105 / 10000) = 6052837899185947 / 2 ^ 59
   \<and> make_request ''Brakes'' ''text'' example_vehicle (regex_ner ''relay 12V'')
       = Inr \<lparr>user_content = ''Vehicle: 2015 Toyota camry\<newline>Manual section: Brakes\<newline>\<newline>Detected component types: relay\<newline>\<newline>text''\<rparr>
   \<and> claude_extract llm_world 0 ''Brakes'' ''text'' example_vehicle (regex_ner ''relay 12V'')
       = Some [(''_cost_usd'', JFloat (Finite (binary64 (105 / 10000)))),
               (''_input_tokens'', JInt 1000), (''_output_tokens'', JInt 500)]
   \<and> claude_extract llm_world 0 ''Brakes'' ''text'' example_vehicle [] = None"
proof -
  let ?q = "\<lparr>user_content = ''Vehicle: 2015 Toyota camry\<newline>Manual section: Brakes\<newline>\<newline>Detected component types: relay\<newline>\<newline>text''\<rparr>"
  let ?r = "[(''_cost_usd'', JFloat (Finite (binary64 (105 / 10000)))),
               (''_input_tokens'', JInt 1000), (''_output_tokens'', JInt 500)]"
  have b: "binary64 (105 / 10000) = 6052837899185947 / 2 ^ 59"
    by code_simp
  have q: "make_request ''Brakes'' ''text'' example_vehicle (regex_ner ''relay 12V'') = Inr ?q"
    by code_simp
  have l: "llm llm_world 0 ?q = Some \<lparr>reply = ''{}'', input_tokens = 1000, output_tokens = 500\<rparr>"
    by (simp add: llm_world_def)
  have j: "json_loads llm_world (strip_fences (strip ''{}'')) = Some (JObj [])"
    by (simp add: llm_world_def)
  have n: "claude_extract llm_world 0 ''Brakes'' ''text'' example_vehicle [] = None"
    by (simp add: claude_extract_def make_request_def ner_context_def ner_item_def)
  note f = cost_formula[where n_in = 1000 and n_out = 500 and t = "''Brakes''" and c = "''text''"
      and veh = example_vehicle and ner = "regex_ner ''relay 12V''" and request = ?q
      and W = llm_world and n = 0 and s = "''{}''" and d = "[]"]
  have c: "cost_usd 1000 500 = Inr (Finite (binary64 (105 / 10000)))"
    using f by simp
  have e: "claude_extract llm_world 0 ''Brakes'' ''text'' example_vehicle (regex_ner ''relay 12V'')
      = Some ?r"
    by (simp add: claude_extract_def q l j c)
  from f[where result = ?r] q l e
  have "map_of ?r ''_cost_usd'' = Some (JFloat (Finite (binary64 (105 / 10000))))"
    by simp
  with c b q e n show ?thesis by simp
qed

end
